theory Spec2Isabelle
  imports Main "HOL-Library.AList"
begin

section \<open>JavaScript strings and values\<close>

text \<open>
  A JavaScript string is modelled as a \<open>string\<close> whose characters are the code units
  0..255 (Latin-1): every literal of the sources lies in that range, an accented letter
  being one code unit (\<open>CHR 0xE3\<close> is a-tilde). \<open>length\<close> is the source's \<open>.length\<close>.
\<close>

fun lowerChar :: "char \<Rightarrow> char" where
  "lowerChar (Char b0 b1 b2 b3 b4 b5 b6 b7) =
     (let n = (of_char (Char b0 b1 b2 b3 b4 b5 b6 b7) :: nat)
      in if (65 \<le> n \<and> n \<le> 90) \<or> (192 \<le> n \<and> n \<le> 222 \<and> n \<noteq> 215)
         then Char b0 b1 b2 b3 b4 True b6 b7
         else Char b0 b1 b2 b3 b4 b5 b6 b7)"

text \<open>\<open>String.prototype.toLowerCase\<close>: A..Z and the Latin-1 capitals 0xC0..0xDE (without the
  multiplication sign 0xD7) move up by 32, which sets bit 5.\<close>

definition toLowerCase :: "string \<Rightarrow> string" where
  "toLowerCase s = map lowerChar s"

fun startsWith :: "string \<Rightarrow> string \<Rightarrow> bool" where
  "startsWith s [] = True"
| "startsWith [] (p # ps) = False"
| "startsWith (c # cs) (p # ps) = (c = p \<and> startsWith cs ps)"

text \<open>\<open>s.includes(sub)\<close>.\<close>

fun str_includes :: "string \<Rightarrow> string \<Rightarrow> bool" where
  "str_includes [] sub = (sub = [])"
| "str_includes (c # cs) sub = (startsWith (c # cs) sub \<or> str_includes cs sub)"







text \<open>The decimal text of a number, as a template literal prints it. The digits are produced
  from the right onto an accumulator.\<close>

definition digit_char :: "nat \<Rightarrow> char" where
  "digit_char d = ''0123456789'' ! (d mod 10)"

function digitsOnto :: "nat \<Rightarrow> string \<Rightarrow> string" where
  "digitsOnto n acc = (if n = 0 then acc else digitsOnto (n div 10) (digit_char n # acc))"
  by pat_completeness auto
termination
  by (relation "measure fst") simp_all

declare digitsOnto.simps [simp del]

definition string_of_nat :: "nat \<Rightarrow> string" where
  "string_of_nat n = (if n = 0 then ''0'' else digitsOnto n [])"

definition string_of_int :: "int \<Rightarrow> string" where
  "string_of_int i = (if 0 \<le> i then string_of_nat (nat i) else CHR ''-'' # string_of_nat (nat (- i)))"

text \<open>A JSON value of a \<open>jsonb\<close> column; \<open>JOther\<close> stands for an array or an object.\<close>

datatype json = JNull | JBool bool | JNum int | JStr string | JOther

text \<open>JavaScript truthiness, as \<open>!v\<close> and \<open>v || d\<close> read it.\<close>

fun truthy :: "json \<Rightarrow> bool" where
  "truthy JNull = False"
| "truthy (JBool b) = b"
| "truthy (JNum n) = (n \<noteq> 0)"
| "truthy (JStr s) = (s \<noteq> [])"
| "truthy JOther = True"

text \<open>A thrown value: an \<open>Error\<close> object with its name and message, or any other value, given
  by its \<open>String(v)\<close>.\<close>

datatype thrown = ErrorObj string string | OtherValue string

text \<open>\<open>new Error(m)\<close>.\<close>

definition newError :: "string \<Rightarrow> thrown" where
  "newError m = ErrorObj ''Error'' m"

text \<open>\<open>String(e)\<close>, which a template literal \<open>${error}\<close> prints
  (\<open>Error.prototype.toString\<close>).\<close>

fun stringOfThrown :: "thrown \<Rightarrow> string" where
  "stringOfThrown (ErrorObj name m) =
     (if name = [] then m else if m = [] then name else name @ '': '' @ m)"
| "stringOfThrown (OtherValue s) = s"

text \<open>A \<open>Date\<close>: a time value in milliseconds, or the invalid date that
  \<open>new Date(text)\<close> gives for unreadable text.\<close>

datatype jsdate = ValidDate int | InvalidDate

text \<open>\<open>t < d\<close> for a valid date \<open>t\<close>: both sides become numbers, and a comparison with NaN
  is false.\<close>

fun date_before :: "int \<Rightarrow> jsdate \<Rightarrow> bool" where
  "date_before t (ValidDate d) = (t < d)"
| "date_before t InvalidDate = False"

section \<open>The shared schema (src/unnamed/part_000)\<close>

datatype AutomationStep =
  connecting_univen | extracting_data | downloading_photos | connecting_olx
  | creating_listing | finalizing

record PropertyData =
  pd_code :: string
  pd_type :: string
  pd_price :: int
  pd_description :: string
  pd_address :: string
  pd_area :: int
  pd_bedrooms :: "int option"
  pd_bathrooms :: "int option"
  pd_photos :: "string list"
  pd_features :: "string list"

text \<open>
  A row of \<open>automations\<close>. The schema declares \<open>propertyCode\<close> and \<open>olxCode\<close>, which the
  second service (header.tsx 496-859) reads; the first service (header.tsx 207-496) reads
  \<open>univenCode\<close> and \<open>brokerId\<close> of the job, so the record carries both pairs. Times are
  milliseconds.
\<close>

record Automation =
  a_id :: nat
  a_propertyCode :: string
  a_olxCode :: string
  a_univenCode :: string
  a_brokerId :: nat
  a_status :: string
  a_progress :: "nat option"
  a_currentStep :: "AutomationStep option"
  a_videoUrl :: "string option"
  a_tourUrl :: "string option"
  a_propertyData :: "PropertyData option"
  a_errorMessage :: "string option"
  a_createdAt :: "int option"
  a_completedAt :: "int option"

record OlxCode =
  c_id :: nat
  c_code :: string
  c_brokerId :: "nat option"
  c_isUsed :: bool
  c_isHighlighted :: bool
  c_isActive :: bool
  c_currentAutomationId :: "nat option"
  c_univenCode :: "string option"
  c_createdAt :: int

record SystemLog =
  l_id :: nat
  l_level :: string
  l_message :: string
  l_automationId :: "nat option"
  l_metadata :: "PropertyData option"
  l_timestamp :: int

record Settings =
  s_id :: nat
  s_key :: string
  s_value :: json
  s_updatedAt :: int

section \<open>MemStorage (src/server/storage.ts 59-370)\<close>

text \<open>
  A JavaScript \<open>Map\<close> is an association list in insertion order with distinct keys:
  \<open>map_of\<close> is \<open>get\<close>, \<open>AList.update\<close> is \<open>set\<close> (an existing key keeps its place, a new
  one goes last), \<open>AList.delete\<close> is \<open>delete\<close>, \<open>map snd\<close> is \<open>Array.from(m.values())\<close>.
  The brokers table is not modelled.
\<close>

record MemStorage =
  automations :: "(nat \<times> Automation) list"
  olxCodes :: "(nat \<times> OlxCode) list"
  systemLogs :: "(nat \<times> SystemLog) list"
  settings :: "(string \<times> Settings) list"
  currentAutomationId :: nat
  currentOlxCodeId :: nat
  currentLogId :: nat
  currentSettingId :: nat

definition getAutomation :: "nat \<Rightarrow> MemStorage \<Rightarrow> Automation option" where
  "getAutomation i st = map_of (automations st) i"

text \<open>\<open>updateAutomation(id, updates)\<close>: the partial object \<open>updates\<close> is the function that
  overwrites its fields.\<close>

definition updateAutomation ::
  "nat \<Rightarrow> (Automation \<Rightarrow> Automation) \<Rightarrow> MemStorage \<Rightarrow> Automation option \<times> MemStorage" where
  "updateAutomation i updates st =
     (case map_of (automations st) i of
        None \<Rightarrow> (None, st)
      | Some automation \<Rightarrow>
          (let updatedAutomation = updates automation
           in (Some updatedAutomation,
               st\<lparr>automations := AList.update i updatedAutomation (automations st)\<rparr>)))"

definition getOlxCodeByCode :: "string \<Rightarrow> MemStorage \<Rightarrow> OlxCode option" where
  "getOlxCodeByCode code st = find (\<lambda>olxCode. c_code olxCode = code) (map snd (olxCodes st))"

definition getAvailableOlxCodes :: "nat \<Rightarrow> MemStorage \<Rightarrow> OlxCode list" where
  "getAvailableOlxCodes brokerId st =
     filter (\<lambda>code. c_brokerId code = Some brokerId \<and> c_isActive code \<and> \<not> c_isUsed code)
       (map snd (olxCodes st))"

definition updateOlxCode ::
  "nat \<Rightarrow> (OlxCode \<Rightarrow> OlxCode) \<Rightarrow> MemStorage \<Rightarrow> OlxCode option \<times> MemStorage" where
  "updateOlxCode i updates st =
     (case map_of (olxCodes st) i of
        None \<Rightarrow> (None, st)
      | Some olxCode \<Rightarrow>
          (let updatedOlxCode = updates olxCode
           in (Some updatedOlxCode, st\<lparr>olxCodes := AList.update i updatedOlxCode (olxCodes st)\<rparr>)))"

text \<open>\<open>createSystemLog\<close>; \<open>now\<close> is the clock reading of \<open>new Date()\<close>.\<close>

definition createSystemLog ::
  "int \<Rightarrow> string \<Rightarrow> string \<Rightarrow> nat option \<Rightarrow> PropertyData option \<Rightarrow> MemStorage \<Rightarrow> MemStorage" where
  "createSystemLog now level msg automationId metadata st =
     (let log = \<lparr>l_id = currentLogId st, l_level = level, l_message = msg,
                  l_automationId = automationId, l_metadata = metadata, l_timestamp = now\<rparr>
      in st\<lparr>systemLogs := AList.update (l_id log) log (systemLogs st),
            currentLogId := currentLogId st + 1\<rparr>)"

text \<open>\<open>deleteSystemLogs(olderThan?)\<close>: without a cutoff the map is cleared; with one, a first
  loop collects the ids of the older entries and a second loop deletes them one by one,
  counting.\<close>

definition logsToDelete :: "jsdate \<Rightarrow> (nat \<times> SystemLog) list \<Rightarrow> nat list" where
  "logsToDelete olderThan logs =
     fold (\<lambda>(i, log) acc. if date_before (l_timestamp log) olderThan then acc @ [i] else acc)
       logs []"

definition deleteSystemLogs :: "jsdate option \<Rightarrow> MemStorage \<Rightarrow> nat \<times> MemStorage" where
  "deleteSystemLogs olderThan st =
     (case olderThan of
        None \<Rightarrow> (let count = length (systemLogs st) in (count, st\<lparr>systemLogs := []\<rparr>))
      | Some d \<Rightarrow>
          fold (\<lambda>i (deleteCount, s).
                  (deleteCount + 1, s\<lparr>systemLogs := AList.delete i (systemLogs s)\<rparr>))
            (logsToDelete d (systemLogs st)) (0, st))"

definition getSettings :: "MemStorage \<Rightarrow> Settings list" where
  "getSettings st = map snd (settings st)"

text \<open>\<open>settings.find(s => s.key === k)?.value\<close>; \<open>None\<close> is \<open>undefined\<close>.\<close>

definition settingValue :: "string \<Rightarrow> Settings list \<Rightarrow> json option" where
  "settingValue k ss = map_option s_value (find (\<lambda>s. s_key s = k) ss)"

text \<open>\<open>!v\<close> for such a value.\<close>

definition falsy :: "json option \<Rightarrow> bool" where
  "falsy v = (case v of None \<Rightarrow> True | Some j \<Rightarrow> \<not> truthy j)"

section \<open>ConnectivityTester (src/server/storage.ts 567-1057)\<close>

text \<open>The \<open>timestamp\<close> of a result (the clock at the return) is left out.\<close>

record ConnectivityTestResult =
  success :: bool
  message :: string
  platform :: string
  recommendation :: "string option"
  requiresCredentials :: "bool option"










section \<open>Browser-driven probes (src/client/src/components/header.tsx 860-1402)\<close>

text \<open>\<open>indicators.filter(indicator => indicator).length\<close>.\<close>

definition countTrue :: "bool list \<Rightarrow> nat" where
  "countTrue indicators = length (filter (\<lambda>indicator. indicator) indicators)"

text \<open>Step 9 of the UNIVEN probe, lines 966-1040, from the URL, the content and the title
  of the page read after the form was sent.\<close>

definition univenSuccessIndicators :: "string \<Rightarrow> string \<Rightarrow> string \<Rightarrow> bool list" where
  "univenSuccessIndicators currentUrl pageContent pageTitle =
     [str_includes currentUrl ''dashboard'',
      str_includes currentUrl ''home'',
      str_includes currentUrl ''principal'',
      str_includes currentUrl ''menu'',
      str_includes currentUrl ''sistema'',
      currentUrl \<noteq> ''https://univenweb.com.br/'' \<and> currentUrl \<noteq> ''https://univenweb.com.br/index.html'',
      str_includes (toLowerCase pageContent) ''logout'',
      str_includes (toLowerCase pageContent) ''sair'',
      str_includes (toLowerCase pageContent) ''bem-vindo'',
      str_includes (toLowerCase pageContent) ''dashboard'',
      str_includes (toLowerCase pageContent) ''menu principal'',
      str_includes (toLowerCase pageTitle) ''sistema'',
      str_includes (toLowerCase pageTitle) ''dashboard'',
      str_includes (toLowerCase pageTitle) ''principal'']"

definition univenErrorIndicators :: "string \<Rightarrow> string \<Rightarrow> bool list" where
  "univenErrorIndicators currentUrl pageContent =
     [str_includes (toLowerCase pageContent) (''usu'' @ [CHR 0xE1] @ ''rio inv'' @ [CHR 0xE1] @ ''lido''),
      str_includes (toLowerCase pageContent) ''senha incorreta'',
      str_includes (toLowerCase pageContent) (''credenciais inv'' @ [CHR 0xE1] @ ''lidas''),
      str_includes (toLowerCase pageContent) ''erro de login'',
      str_includes (toLowerCase pageContent) (''login inv'' @ [CHR 0xE1] @ ''lido''),
      str_includes (toLowerCase pageContent) ''dados incorretos'',
      str_includes (toLowerCase pageContent) ''acesso negado'',
      str_includes (toLowerCase pageContent) ''invalid'',
      str_includes (toLowerCase pageContent) ''incorrect'',
      str_includes (toLowerCase pageContent) ''failed'',
      currentUrl = ''https://univenweb.com.br/'',
      currentUrl = ''https://univenweb.com.br/index.html'']"







definition olxSuccessIndicators :: "string \<Rightarrow> string \<Rightarrow> string \<Rightarrow> bool list" where
  "olxSuccessIndicators currentUrl pageContent pageTitle =
     [str_includes currentUrl ''dashboard'',
      str_includes currentUrl ''painel'',
      str_includes currentUrl ''admin'',
      str_includes currentUrl ''portal'',
      str_includes currentUrl ''home'',
      str_includes currentUrl ''main'',
      currentUrl \<noteq> ''https://canalpro.grupozap.com/login'' \<and> currentUrl \<noteq> ''https://canalpro.grupozap.com/'',
      str_includes (toLowerCase pageContent) ''logout'',
      str_includes (toLowerCase pageContent) ''sair'',
      str_includes (toLowerCase pageContent) ''bem-vindo'',
      str_includes (toLowerCase pageContent) ''dashboard'',
      str_includes (toLowerCase pageContent) ''painel'',
      str_includes (toLowerCase pageContent) (''meus an'' @ [CHR 0xFA] @ ''ncios''),
      str_includes (toLowerCase pageContent) ''olx pro'',
      str_includes (toLowerCase pageContent) ''canal pro'',
      str_includes (toLowerCase pageTitle) ''dashboard'',
      str_includes (toLowerCase pageTitle) ''painel'',
      str_includes (toLowerCase pageTitle) ''portal'',
      str_includes (toLowerCase pageTitle) ''olx pro'']"

definition olxErrorIndicators :: "string \<Rightarrow> string \<Rightarrow> bool list" where
  "olxErrorIndicators currentUrl pageContent =
     [str_includes (toLowerCase pageContent) (''email inv'' @ [CHR 0xE1] @ ''lido''),
      str_includes (toLowerCase pageContent) ''senha incorreta'',
      str_includes (toLowerCase pageContent) (''credenciais inv'' @ [CHR 0xE1] @ ''lidas''),
      str_includes (toLowerCase pageContent) ''erro de login'',
      str_includes (toLowerCase pageContent) (''login inv'' @ [CHR 0xE1] @ ''lido''),
      str_includes (toLowerCase pageContent) ''dados incorretos'',
      str_includes (toLowerCase pageContent) ''acesso negado'',
      str_includes (toLowerCase pageContent) (''usu'' @ [CHR 0xE1] @ ''rio n'' @ [CHR 0xE3] @ ''o encontrado''),
      str_includes (toLowerCase pageContent) ''invalid'',
      str_includes (toLowerCase pageContent) ''incorrect'',
      str_includes (toLowerCase pageContent) ''failed'',
      str_includes (toLowerCase pageContent) ''error'',
      currentUrl = ''https://canalpro.grupozap.com/login'',
      currentUrl = ''https://canalpro.grupozap.com/'']"






section \<open>AutomationService: state, browser, events\<close>

record LaunchOptions =
  headless :: bool
  args :: "string list"

text \<open>A puppeteer browser handle: whether it is connected, and the options it was launched
  with.\<close>

record Browser =
  isConnected :: bool
  launchedWith :: LaunchOptions

text \<open>\<open>puppeteer.launch(options)\<close>: \<open>launchError\<close> is what the launch throws, if it throws.\<close>

definition puppeteer_launch :: "thrown option \<Rightarrow> LaunchOptions \<Rightarrow> thrown + Browser" where
  "puppeteer_launch launchError options =
     (case launchError of
        Some e \<Rightarrow> Inl e
      | None \<Rightarrow> Inr \<lparr>isConnected = True, launchedWith = options\<rparr>)"

text \<open>A message handed to \<open>broadcast\<close>, which sends it to every open WebSocket client: a log
  event (level, message, job id, metadata, time) or a progress event (job id, step,
  progress, message, time).\<close>

datatype WsMessage =
  LogEvent string string "nat option" "PropertyData option" int
  | ProgressEvent nat AutomationStep nat string int

text \<open>
  The fields of the service: the storage, the map \<open>activeAutomations\<close> (only its key set
  is ever read), the browser handle, and the messages broadcast so far. Both services of
  header.tsx have these fields.
\<close>

record Service =
  storage :: MemStorage
  activeAutomations :: "nat set"
  browser :: "Browser option"
  outbox :: "WsMessage list"

definition broadcast :: "WsMessage \<Rightarrow> Service \<Rightarrow> Service" where
  "broadcast msg sv = sv\<lparr>outbox := outbox sv @ [msg]\<rparr>"

text \<open>\<open>v ?? d\<close> on a setting value read with \<open>?.value\<close>.\<close>

definition nullish :: "json option \<Rightarrow> json \<Rightarrow> json" where
  "nullish v d = (case v of None \<Rightarrow> d | Some JNull \<Rightarrow> d | Some j \<Rightarrow> j)"

text \<open>\<open>getBrowser\<close> of the first service, lines 265-289. The result is the thrown value or
  the handle, with the service after the call.\<close>

definition getBrowser_v1 :: "thrown option \<Rightarrow> Service \<Rightarrow> (thrown + Browser) \<times> Service" where
  "getBrowser_v1 launchError sv =
     (if browser sv = None \<or> \<not> isConnected (the (browser sv)) then
        (let settings = getSettings (storage sv);
             headlessSetting = settingValue ''headless'' settings;
             browserTypeSetting = settingValue ''browserType'' settings;
             headless = nullish headlessSetting (JBool False);
             browserType = nullish browserTypeSetting (JStr ''chrome'')
         in case puppeteer_launch launchError
                   \<lparr>headless = True,
                    args = [''--no-sandbox'', ''--disable-setuid-sandbox'',
                            ''--disable-dev-shm-usage'', ''--disable-accelerated-2d-canvas'',
                            ''--no-first-run'', ''--no-zygote'', ''--single-process'',
                            ''--disable-gpu'']\<rparr> of
              Inl e \<Rightarrow> (Inl e, sv)
            | Inr b \<Rightarrow> (Inr b, sv\<lparr>browser := Some b\<rparr>))
      else (Inr (the (browser sv)), sv))"

text \<open>\<open>getBrowser\<close> of the second service, lines 563-600.\<close>

definition getBrowser_v2 :: "thrown option \<Rightarrow> Service \<Rightarrow> (thrown + Browser) \<times> Service" where
  "getBrowser_v2 launchError sv =
     (if browser sv = None \<or> \<not> isConnected (the (browser sv)) then
        (let settings = getSettings (storage sv);
             headlessSetting = settingValue ''headless'' settings;
             browserTypeSetting = settingValue ''browserType'' settings;
             headless = nullish headlessSetting (JBool False);
             browserType = nullish browserTypeSetting (JStr ''chrome'')
         in case puppeteer_launch launchError
                   \<lparr>headless = True,
                    args = [''--no-sandbox'', ''--disable-setuid-sandbox'',
                            ''--disable-dev-shm-usage'', ''--disable-accelerated-2d-canvas'',
                            ''--no-first-run'', ''--no-zygote'', ''--single-process'',
                            ''--disable-gpu'', ''--disable-web-security'',
                            ''--disable-features=VizDisplayCompositor'', ''--disable-extensions'',
                            ''--disable-default-apps'', ''--disable-sync'',
                            ''--metrics-recording-only'', ''--no-default-browser-check'',
                            ''--no-experiments'', ''--hide-scrollbars'', ''--mute-audio'',
                            ''--disable-background-timer-throttling'',
                            ''--disable-renderer-backgrounding'',
                            ''--disable-backgrounding-occluded-windows'']\<rparr> of
              Inl e \<Rightarrow> (Inl e, sv)
            | Inr b \<Rightarrow> (Inr b, sv\<lparr>browser := Some b\<rparr>))
      else (Inr (the (browser sv)), sv))"

section \<open>AutomationService, first service (header.tsx 207-496)\<close>

text \<open>
  \<open>log\<close>, lines 231-243: the entry is stored with \<open>automationId || null\<close> and the JSON text
  of the metadata (represented by the metadata), then broadcast. \<open>now\<close> is the clock.
\<close>

definition log_v1 ::
  "int \<Rightarrow> string \<Rightarrow> string \<Rightarrow> nat option \<Rightarrow> PropertyData option \<Rightarrow> Service \<Rightarrow> Service" where
  "log_v1 now level msg automationId metadata sv =
     broadcast (LogEvent level msg automationId metadata now)
       (sv\<lparr>storage :=
             createSystemLog now level msg
               (case automationId of None \<Rightarrow> None | Some n \<Rightarrow> if n = 0 then None else Some n)
               metadata (storage sv)\<rparr>)"

text \<open>\<open>updateProgress\<close>, lines 245-263: persist step and progress, log, broadcast.\<close>

definition updateProgress_v1 ::
  "int \<Rightarrow> nat \<Rightarrow> AutomationStep \<Rightarrow> nat \<Rightarrow> string \<Rightarrow> Service \<Rightarrow> Service" where
  "updateProgress_v1 now automationId step progress msg sv =
     (let sv = sv\<lparr>storage :=
                   snd (updateAutomation automationId
                          (\<lambda>a. a\<lparr>a_currentStep := Some step, a_progress := Some progress\<rparr>)
                          (storage sv))\<rparr>;
          sv = log_v1 now ''info'' msg (Some automationId) None sv
      in broadcast (ProgressEvent automationId step progress msg now) sv)"

text \<open>
  One call of a method of the \<open>ConnectivityTester\<close> of \<open>./connectivity-test\<close>, as the
  service sees it: the log lines (level, message) the tester stores, and the result it
  returns. The tester catches what its own steps throw.
\<close>

record ProbeOutcome =
  po_logs :: "(string \<times> string) list"
  po_result :: ConnectivityTestResult

definition runProbe :: "int \<Rightarrow> ProbeOutcome \<Rightarrow> Service \<Rightarrow> ConnectivityTestResult \<times> Service" where
  "runProbe now outcome sv =
     (po_result outcome,
      sv\<lparr>storage := fold (\<lambda>(level, msg) st. createSystemLog now level msg None None st)
                        (po_logs outcome) (storage sv)\<rparr>)"

text \<open>
  The surroundings of one run of the first service: the clock (one reading serves the
  whole run); what the dynamic \<open>import\<close> of line 305 throws, if it throws; and the two
  probes, by the credentials they are called with.
\<close>

record Env1 =
  e1_now :: int
  e1_importError :: "thrown option"
  e1_univenProbe :: "json \<Rightarrow> json \<Rightarrow> ProbeOutcome"
  e1_olxProbe :: "json \<Rightarrow> json \<Rightarrow> ProbeOutcome"

text \<open>\<open>extractPropertyData\<close>, lines 373-393.\<close>

definition extractPropertyData_v1 ::
  "int \<Rightarrow> string \<Rightarrow> nat \<Rightarrow> Service \<Rightarrow> PropertyData \<times> Service" where
  "extractPropertyData_v1 now propertyCode automationId sv =
     (let sv = log_v1 now ''info'' ((''Extraindo dados para o c'' @ [CHR 0xF3] @ ''digo: '') @ propertyCode)
                 (Some automationId) None sv;
          propertyData =
            \<lparr>pd_code = propertyCode, pd_type = ''Apartamento'', pd_price = 350000,
             pd_description = (''Excelente apartamento em localiza'' @ [CHR 0xE7, CHR 0xE3] @ ''o privilegiada''),
             pd_address = ''Rua das Flores, 123 - Centro'', pd_area = 85,
             pd_bedrooms = Some 2, pd_bathrooms = Some 1, pd_photos = [],
             pd_features = [''Varanda'', ''Garagem'', ''Elevador'']\<rparr>;
          sv = log_v1 now ''info'' ((''Dados extra'' @ [CHR 0xED] @ ''dos com sucesso para '') @ propertyCode)
                 (Some automationId) (Some propertyData) sv
      in (propertyData, sv))"

text \<open>\<open>downloadPhotos\<close>, lines 395-401.\<close>

definition downloadPhotos_v1 ::
  "int \<Rightarrow> string list \<Rightarrow> string \<Rightarrow> nat \<Rightarrow> Service \<Rightarrow> string list \<times> Service" where
  "downloadPhotos_v1 now photoUrls propertyCode automationId sv =
     (photoUrls,
      log_v1 now ''info''
        (''Baixando '' @ string_of_nat (length photoUrls) @ '' fotos para '' @ propertyCode)
        (Some automationId) None sv)"

text \<open>\<open>createOLXListing\<close>, lines 403-426: the thrown value, if any, and the service after.\<close>

definition createOLXListing_v1 ::
  "int \<Rightarrow> PropertyData \<Rightarrow> Automation \<Rightarrow> nat \<Rightarrow> Service \<Rightarrow> thrown option \<times> Service" where
  "createOLXListing_v1 now propertyData automation automationId sv =
     (let sv = log_v1 now ''info'' ((''Criando an'' @ [CHR 0xFA] @ ''ncio OLX para '') @ pd_code propertyData)
                 (Some automationId) None sv;
          availableCodes = getAvailableOlxCodes (a_brokerId automation) (storage sv)
      in case availableCodes of
           [] \<Rightarrow> (Some (newError (''Nenhum c'' @ [CHR 0xF3] @ ''digo OLX dispon'' @ [CHR 0xED] @ ''vel'')), sv)
         | olxCode # others \<Rightarrow>
             (let sv = sv\<lparr>storage :=
                           snd (updateOlxCode (c_id olxCode)
                                  (\<lambda>c. c\<lparr>c_isUsed := True,
                                          c_currentAutomationId := Some automationId,
                                          c_univenCode := Some (pd_code propertyData)\<rparr>)
                                  (storage sv))\<rparr>;
                  sv = log_v1 now ''info''
                         ((''An'' @ [CHR 0xFA] @ ''ncio criado com sucesso usando c'' @ [CHR 0xF3] @ ''digo '') @ c_code olxCode)
                         (Some automationId) None sv
              in (None, sv)))"

text \<open>Lines 348-358 of \<open>startAutomation\<close>: the publication and the end of the \<open>try\<close>
  block.\<close>

definition startAutomation_publish_v1 ::
  "Env1 \<Rightarrow> PropertyData \<Rightarrow> Automation \<Rightarrow> nat \<Rightarrow> Service \<Rightarrow> thrown option \<times> Service" where
  "startAutomation_publish_v1 env propertyData automation automationId sv =
     (let now = e1_now env;
          sv = updateProgress_v1 now automationId creating_listing 90
                 (''Criando an'' @ [CHR 0xFA] @ ''ncio no OLX...'') sv
      in case createOLXListing_v1 now propertyData automation automationId sv of
           (Some e, sv) \<Rightarrow> (Some e, sv)
         | (None, sv) \<Rightarrow>
             (let sv = updateProgress_v1 now automationId finalizing 100
                         (''Automa'' @ [CHR 0xE7, CHR 0xE3] @ ''o conclu'' @ [CHR 0xED] @ ''da com sucesso!'') sv;
                  sv = sv\<lparr>storage :=
                           snd (updateAutomation automationId
                                  (\<lambda>a. a\<lparr>a_status := ''completed'',
                                          a_completedAt := Some now\<rparr>)
                                  (storage sv))\<rparr>
              in (None, sv)))"

text \<open>Lines 321-346 of \<open>startAutomation\<close>: extraction, photos and the target system; then
  the publication.\<close>

definition startAutomation_rest_v1 ::
  "Env1 \<Rightarrow> Automation \<Rightarrow> nat \<Rightarrow> Service \<Rightarrow> thrown option \<times> Service" where
  "startAutomation_rest_v1 env automation automationId sv =
     (let now = e1_now env;
          sv = updateProgress_v1 now automationId extracting_data 40
                 (''Extraindo dados do im'' @ [CHR 0xF3] @ ''vel...'') sv;
          (propertyData, sv) =
             extractPropertyData_v1 now (a_univenCode automation) automationId sv;
          sv = updateProgress_v1 now automationId downloading_photos 60
                 (''Baixando fotos do im'' @ [CHR 0xF3] @ ''vel...'') sv;
          (photos, sv) =
             downloadPhotos_v1 now (pd_photos propertyData) (a_univenCode automation)
               automationId sv;
          propertyData = propertyData\<lparr>pd_photos := photos\<rparr>;
          sv = updateProgress_v1 now automationId connecting_olx 80 ''Conectando ao OLX...'' sv;
          olxSettings = getSettings (storage sv);
          olxEmail = settingValue ''olxEmail'' olxSettings;
          olxPassword = settingValue ''olxPassword'' olxSettings
      in if falsy olxEmail \<or> falsy olxPassword then
           (Some (newError (''Credenciais OLX n'' @ [CHR 0xE3] @ ''o configuradas'')), sv)
         else
           (let (olxResult, sv) =
                  runProbe now (e1_olxProbe env (the olxEmail) (the olxPassword)) sv;
                sv = (if \<not> success olxResult
                      then log_v1 now ''warning''
                             (''OLX connection warning: '' @ message olxResult)
                             (Some automationId) None sv
                      else sv)
            in startAutomation_publish_v1 env propertyData automation automationId sv))"

text \<open>The \<open>try\<close> block of \<open>startAutomation\<close>, lines 292-358: the value it throws, if any,
  and the service at that point.\<close>

definition startAutomation_try_v1 :: "Env1 \<Rightarrow> nat \<Rightarrow> Service \<Rightarrow> thrown option \<times> Service" where
  "startAutomation_try_v1 env automationId sv =
     (let now = e1_now env;
          sv = sv\<lparr>activeAutomations := insert automationId (activeAutomations sv)\<rparr>
      in case getAutomation automationId (storage sv) of
           None \<Rightarrow>
             (Some (newError (''Automation '' @ string_of_nat automationId @ '' not found'')), sv)
         | Some automation \<Rightarrow>
             (let sv = updateProgress_v1 now automationId connecting_univen 10
                         (''Iniciando automa'' @ [CHR 0xE7, CHR 0xE3] @ ''o...'') sv;
                  sv = updateProgress_v1 now automationId connecting_univen 20
                         (''Testando conex'' @ [CHR 0xE3] @ ''o UNIVEN...'') sv
              in case e1_importError env of
                   Some e \<Rightarrow> (Some e, sv)
                 | None \<Rightarrow>
                     (let univenSettings = getSettings (storage sv);
                          univenUsername = settingValue ''univenUsername'' univenSettings;
                          univenPassword = settingValue ''univenPassword'' univenSettings
                      in if falsy univenUsername \<or> falsy univenPassword then
                           (Some (newError (''Credenciais UNIVEN n'' @ [CHR 0xE3] @ ''o configuradas'')), sv)
                         else
                           (let (univenResult, sv) =
                                  runProbe now
                                    (e1_univenProbe env (the univenUsername) (the univenPassword))
                                    sv
                            in if \<not> success univenResult then
                                 (Some (newError ((''Falha na conex'' @ [CHR 0xE3] @ ''o UNIVEN: '')
                                                  @ message univenResult)), sv)
                               else startAutomation_rest_v1 env automation automationId sv))))"

text \<open>\<open>error instanceof Error ? error.message : 'Erro desconhecido'\<close>, line 361.\<close>

definition errorMsg_v1 :: "thrown \<Rightarrow> string" where
  "errorMsg_v1 error = (case error of ErrorObj name m \<Rightarrow> m | OtherValue s \<Rightarrow> ''Erro desconhecido'')"

text \<open>The \<open>catch\<close> clause, lines 360-367.\<close>

definition startAutomation_catch_v1 :: "int \<Rightarrow> nat \<Rightarrow> thrown \<Rightarrow> Service \<Rightarrow> Service" where
  "startAutomation_catch_v1 now automationId error sv =
     (let errorMsg = errorMsg_v1 error;
          sv = log_v1 now ''error''
                 ((''Automa'' @ [CHR 0xE7, CHR 0xE3] @ ''o '') @ string_of_nat automationId @ '' falhou: '' @ errorMsg)
                 (Some automationId) None sv
      in sv\<lparr>storage :=
              snd (updateAutomation automationId
                     (\<lambda>a. a\<lparr>a_status := ''failed'', a_errorMessage := Some errorMsg\<rparr>)
                     (storage sv))\<rparr>)"

text \<open>\<open>startAutomation\<close>, lines 291-371: \<open>try\<close>, \<open>catch\<close>, \<open>finally\<close>.\<close>

definition startAutomation_v1 :: "Env1 \<Rightarrow> nat \<Rightarrow> Service \<Rightarrow> Service" where
  "startAutomation_v1 env automationId sv =
     (let (thrownValue, sv) = startAutomation_try_v1 env automationId sv;
          sv = (case thrownValue of
                  None \<Rightarrow> sv
                | Some error \<Rightarrow> startAutomation_catch_v1 (e1_now env) automationId error sv)
      in sv\<lparr>activeAutomations := activeAutomations sv - {automationId}\<rparr>)"

section \<open>AutomationService, second service (header.tsx 496-859)\<close>

text \<open>\<open>log\<close>, lines 522-540: the broadcast carries no metadata.\<close>

definition log_v2 ::
  "int \<Rightarrow> string \<Rightarrow> string \<Rightarrow> nat option \<Rightarrow> PropertyData option \<Rightarrow> Service \<Rightarrow> Service" where
  "log_v2 now level msg automationId metadata sv =
     broadcast (LogEvent level msg automationId None now)
       (sv\<lparr>storage := createSystemLog now level msg automationId metadata (storage sv)\<rparr>)"

text \<open>\<open>updateProgress\<close>, lines 542-561.\<close>

definition updateProgress_v2 ::
  "int \<Rightarrow> nat \<Rightarrow> AutomationStep \<Rightarrow> nat \<Rightarrow> string \<Rightarrow> Service \<Rightarrow> Service" where
  "updateProgress_v2 now automationId step progress msg sv =
     (let sv = sv\<lparr>storage :=
                   snd (updateAutomation automationId
                          (\<lambda>a. a\<lparr>a_currentStep := Some step, a_progress := Some progress\<rparr>)
                          (storage sv))\<rparr>;
          sv = log_v2 now ''info'' msg (Some automationId) None sv
      in broadcast (ProgressEvent automationId step progress msg now) sv)"

text \<open>
  The surroundings of one run of the second service: the clock (also \<open>Date.now()\<close>); what
  \<open>puppeteer.launch\<close> throws, if it throws; for each of the two pages of a run what
  \<open>browser.newPage()\<close> and \<open>page.close()\<close> throw; the four values
  \<open>Math.floor(Math.random() * k)\<close> of the extraction; the working directory, whether the
  photo directory exists and what \<open>fs.mkdirSync\<close> throws. A browser that is connected
  stays connected during the run; the timers only wait.
\<close>

record Env2 =
  e2_now :: int
  e2_launchError :: "thrown option"
  e2_newPageError_extract :: "thrown option"
  e2_pageCloseError_extract :: "thrown option"
  e2_newPageError_listing :: "thrown option"
  e2_pageCloseError_listing :: "thrown option"
  e2_randomPrice :: int
  e2_randomArea :: int
  e2_randomBedrooms :: int
  e2_randomBathrooms :: int
  e2_cwd :: string
  e2_dirExists :: bool
  e2_mkdirError :: "thrown option"

text \<open>\<open>extractPropertyData\<close>, lines 660-696. A throw of \<open>page.close()\<close> in the \<open>finally\<close>
  clause replaces the returned value.\<close>

definition extractPropertyData_v2 ::
  "Env2 \<Rightarrow> string \<Rightarrow> nat \<Rightarrow> Service \<Rightarrow> (thrown + PropertyData) \<times> Service" where
  "extractPropertyData_v2 env propertyCode automationId sv =
     (case getBrowser_v2 (e2_launchError env) sv of
        (Inl e, sv) \<Rightarrow> (Inl e, sv)
      | (Inr b, sv) \<Rightarrow>
          (case e2_newPageError_extract env of
             Some e \<Rightarrow> (Inl e, sv)
           | None \<Rightarrow>
               (let now = e2_now env;
                    sv = log_v2 now ''info'' (''Navigating to UNIVEN for property '' @ propertyCode)
                           (Some automationId) None sv;
                    propertyData =
                      \<lparr>pd_code = propertyCode,
                       pd_type = (if startsWith propertyCode ''AP'' then ''Apartamento''
                                  else if startsWith propertyCode ''CA'' then ''Casa''
                                  else ''Apartamento''),
                       pd_price = e2_randomPrice env + 300000,
                       pd_description =
                         ''Excelente ''
                         @ (if startsWith propertyCode ''AP'' then ''apartamento'' else ''casa'')
                         @ ('' em '' @ [CHR 0xF3] @ ''tima localiza'' @ [CHR 0xE7, CHR 0xE3] @ ''o.''),
                       pd_address = ''Rua Exemplo, 123 - Centro'',
                       pd_area = e2_randomArea env + 50,
                       pd_bedrooms = Some (e2_randomBedrooms env + 1),
                       pd_bathrooms = Some (e2_randomBathrooms env + 1),
                       pd_photos = [''https://example.com/photo1.jpg'',
                                    ''https://example.com/photo2.jpg'',
                                    ''https://example.com/photo3.jpg''],
                       pd_features = [''Garagem'', ([CHR 0xC1] @ ''rea de lazer''), ''Portaria 24h'']\<rparr>;
                    sv = log_v2 now ''success'' (''Property data extracted for '' @ propertyCode)
                           (Some automationId) (Some propertyData) sv
                in case e2_pageCloseError_extract env of
                     Some e \<Rightarrow> (Inl e, sv)
                   | None \<Rightarrow> (Inr propertyData, sv))))"

text \<open>\<open>path.join\<close>: the segments joined by \<open>/\<close>; its normalisation of the joined path is
  not modelled.\<close>

fun pathJoin :: "string list \<Rightarrow> string" where
  "pathJoin [] = ''.''"
| "pathJoin [p] = p"
| "pathJoin (p # q # ps) = p @ ''/'' @ pathJoin (q # ps)"

text \<open>The \<open>for\<close> loop of lines 716-728, at index \<open>i\<close> with the URLs still to visit.\<close>

fun downloadLoop ::
  "int \<Rightarrow> string \<Rightarrow> nat \<Rightarrow> nat \<Rightarrow> nat \<Rightarrow> string list \<Rightarrow> string list \<Rightarrow> Service
   \<Rightarrow> string list \<times> Service" where
  "downloadLoop now photosDir automationId count i [] downloadedPaths sv = (downloadedPaths, sv)"
| "downloadLoop now photosDir automationId count i (photoUrl # urls) downloadedPaths sv =
     (let filename = ''photo_'' @ string_of_nat (i + 1) @ ''.jpg'';
          filepath = pathJoin [photosDir, filename];
          downloadedPaths = downloadedPaths @ [filepath];
          sv = log_v2 now ''info''
                 (''Downloaded photo '' @ string_of_nat (i + 1) @ ''/'' @ string_of_nat count)
                 (Some automationId) None sv
      in downloadLoop now photosDir automationId count (i + 1) urls downloadedPaths sv)"

text \<open>\<open>downloadPhotos\<close>, lines 698-737.\<close>

definition downloadPhotos_v2 ::
  "Env2 \<Rightarrow> string list \<Rightarrow> string \<Rightarrow> nat \<Rightarrow> Service \<Rightarrow> string list \<times> Service" where
  "downloadPhotos_v2 env photoUrls propertyCode automationId sv =
     (let now = e2_now env;
          settings = getSettings (storage sv);
          downloadPhotosSetting = settingValue ''downloadPhotos'' settings
      in if falsy downloadPhotosSetting then
           (photoUrls,
            log_v2 now ''info'' ''Photo download disabled in settings'' (Some automationId) None sv)
         else
           (let photosDir = pathJoin [e2_cwd env, ''photos'', propertyCode]
            in case (if \<not> e2_dirExists env then e2_mkdirError env else None) of
                 Some error \<Rightarrow>
                   (photoUrls,
                    log_v2 now ''warning'' (''Failed to download photos: '' @ stringOfThrown error)
                      (Some automationId) None sv)
               | None \<Rightarrow>
                   (let (downloadedPaths, sv) =
                          downloadLoop now photosDir automationId (length photoUrls) 0 photoUrls [] sv;
                        sv = log_v2 now ''success''
                               (''Downloaded '' @ string_of_nat (length downloadedPaths)
                                @ '' photos for '' @ propertyCode)
                               (Some automationId) None sv
                    in (downloadedPaths, sv))))"

text \<open>A string or \<open>null\<close> in a condition.\<close>

definition truthyStr :: "string option \<Rightarrow> bool" where
  "truthyStr v = (case v of None \<Rightarrow> False | Some s \<Rightarrow> s \<noteq> [])"

text \<open>The \<open>try\<close> block of \<open>createOLXListing\<close>, lines 748-783. A code has no \<open>name\<close>, so the
  template of line 760 prints \<open>undefined\<close> for it.\<close>

definition createOLXListing_try_v2 ::
  "int \<Rightarrow> Automation \<Rightarrow> nat \<Rightarrow> Service \<Rightarrow> thrown option \<times> Service" where
  "createOLXListing_try_v2 now automation automationId sv =
     (let sv = log_v2 now ''info'' ''Navigating to OLX Pro'' (Some automationId) None sv
      in case getOlxCodeByCode (a_olxCode automation) (storage sv) of
           None \<Rightarrow>
             (Some (newError (''OLX code '' @ a_olxCode automation @ '' not found'')), sv)
         | Some olxCode \<Rightarrow>
             (let sv = log_v2 now ''info''
                         (''Creating listing for broker undefined ('' @ c_code olxCode @ '')'')
                         (Some automationId) None sv;
                  sv = log_v2 now ''info'' ''Filling property details...'' (Some automationId) None sv;
                  sv = log_v2 now ''info'' ''Uploading photos...'' (Some automationId) None sv;
                  sv = (if truthyStr (a_videoUrl automation)
                        then log_v2 now ''info'' ''Adding video URL...'' (Some automationId) None sv
                        else sv);
                  sv = (if truthyStr (a_tourUrl automation)
                        then log_v2 now ''info'' ''Adding virtual tour URL...'' (Some automationId) None sv
                        else sv);
                  sv = log_v2 now ''info'' ''Publishing listing...'' (Some automationId) None sv;
                  listingId = ''OLX'' @ string_of_int now;
                  sv = log_v2 now ''success''
                         (''Listing created successfully with ID: '' @ listingId)
                         (Some automationId) None sv
              in (None, sv)))"

text \<open>\<open>createOLXListing\<close>, lines 739-788; \<open>page.close()\<close> runs in the \<open>finally\<close> clause, and
  what it throws replaces what the block threw.\<close>

definition createOLXListing_v2 ::
  "Env2 \<Rightarrow> PropertyData \<Rightarrow> Automation \<Rightarrow> string list \<Rightarrow> nat \<Rightarrow> Service
   \<Rightarrow> thrown option \<times> Service" where
  "createOLXListing_v2 env propertyData automation photoPaths automationId sv =
     (case getBrowser_v2 (e2_launchError env) sv of
        (Inl e, sv) \<Rightarrow> (Some e, sv)
      | (Inr b, sv) \<Rightarrow>
          (case e2_newPageError_listing env of
             Some e \<Rightarrow> (Some e, sv)
           | None \<Rightarrow>
               (let (thrownInTry, sv) = createOLXListing_try_v2 (e2_now env) automation automationId sv
                in case e2_pageCloseError_listing env of
                     Some e \<Rightarrow> (Some e, sv)
                   | None \<Rightarrow> (thrownInTry, sv))))"

text \<open>Lines 623-647 of \<open>startAutomation\<close>: from step 2 to the end of the \<open>try\<close> block.\<close>

definition startAutomation_rest_v2 ::
  "Env2 \<Rightarrow> Automation \<Rightarrow> PropertyData \<Rightarrow> nat \<Rightarrow> Service \<Rightarrow> thrown option \<times> Service" where
  "startAutomation_rest_v2 env automation propertyData automationId sv =
     (let now = e2_now env;
          sv = updateProgress_v2 now automationId extracting_data 30
                 ''Extracting property data...'' sv;
          sv = updateProgress_v2 now automationId downloading_photos 50
                 ''Downloading property photos...'' sv;
          (photoPaths, sv) =
             downloadPhotos_v2 env (pd_photos propertyData) (a_propertyCode automation)
               automationId sv;
          sv = updateProgress_v2 now automationId connecting_olx 70
                 ''Connecting to OLX Pro...'' sv;
          sv = updateProgress_v2 now automationId creating_listing 85
                 ''Creating listing on OLX Pro...'' sv
      in case createOLXListing_v2 env propertyData automation photoPaths automationId sv of
           (Some e, sv) \<Rightarrow> (Some e, sv)
         | (None, sv) \<Rightarrow>
             (let sv = updateProgress_v2 now automationId finalizing 100
                         ''Automation completed successfully!'' sv;
                  sv = sv\<lparr>storage :=
                           snd (updateAutomation automationId
                                  (\<lambda>a. a\<lparr>a_status := ''completed'', a_progress := Some 100,
                                          a_propertyData := Some propertyData,
                                          a_completedAt := Some now\<rparr>)
                                  (storage sv))\<rparr>;
                  sv = log_v2 now ''success''
                         (''Automation completed successfully for property ''
                          @ a_propertyCode automation)
                         (Some automationId) None sv
              in (None, sv)))"

text \<open>The \<open>try\<close> block of \<open>startAutomation\<close>, lines 610-647.\<close>

definition startAutomation_try_v2 :: "Env2 \<Rightarrow> nat \<Rightarrow> Service \<Rightarrow> thrown option \<times> Service" where
  "startAutomation_try_v2 env automationId sv =
     (let now = e2_now env
      in case getAutomation automationId (storage sv) of
           None \<Rightarrow>
             (Some (newError (''Automation '' @ string_of_nat automationId @ '' not found'')), sv)
         | Some automation \<Rightarrow>
             (let sv = sv\<lparr>storage :=
                           snd (updateAutomation automationId
                                  (\<lambda>a. a\<lparr>a_status := ''processing''\<rparr>) (storage sv))\<rparr>;
                  sv = log_v2 now ''info''
                         (''Starting automation for property '' @ a_propertyCode automation)
                         (Some automationId) None sv;
                  sv = updateProgress_v2 now automationId connecting_univen 10
                         ''Connecting to UNIVEN system...'' sv
              in case extractPropertyData_v2 env (a_propertyCode automation) automationId sv of
                   (Inl e, sv) \<Rightarrow> (Some e, sv)
                 | (Inr propertyData, sv) \<Rightarrow>
                     startAutomation_rest_v2 env automation propertyData automationId sv))"

text \<open>\<open>error instanceof Error ? error.message : String(error)\<close>, line 653.\<close>

definition errorMsg_v2 :: "thrown \<Rightarrow> string" where
  "errorMsg_v2 error = (case error of ErrorObj name m \<Rightarrow> m | OtherValue s \<Rightarrow> s)"

text \<open>The \<open>catch\<close> clause, lines 649-654.\<close>

definition startAutomation_catch_v2 :: "int \<Rightarrow> nat \<Rightarrow> thrown \<Rightarrow> Service \<Rightarrow> Service" where
  "startAutomation_catch_v2 now automationId error sv =
     (let sv = log_v2 now ''error'' (''Automation failed: '' @ stringOfThrown error)
                 (Some automationId) None sv
      in sv\<lparr>storage :=
              snd (updateAutomation automationId
                     (\<lambda>a. a\<lparr>a_status := ''failed'', a_errorMessage := Some (errorMsg_v2 error)\<rparr>)
                     (storage sv))\<rparr>)"

text \<open>\<open>startAutomation\<close>, lines 602-658: the guard on the active set, then \<open>try\<close>, \<open>catch\<close>,
  \<open>finally\<close>.\<close>

definition startAutomation_v2 :: "Env2 \<Rightarrow> nat \<Rightarrow> Service \<Rightarrow> Service" where
  "startAutomation_v2 env automationId sv =
     (if automationId \<in> activeAutomations sv then
        log_v2 (e2_now env) ''warning''
          (''Automation '' @ string_of_nat automationId @ '' is already running'')
          (Some automationId) None sv
      else
        (let sv = sv\<lparr>activeAutomations := insert automationId (activeAutomations sv)\<rparr>;
             (thrownValue, sv) = startAutomation_try_v2 env automationId sv;
             sv = (case thrownValue of
                     None \<Rightarrow> sv
                   | Some error \<Rightarrow> startAutomation_catch_v2 (e2_now env) automationId error sv)
         in sv\<lparr>activeAutomations := activeAutomations sv - {automationId}\<rparr>))"

section \<open>What a run shows\<close>

text \<open>The progress events of a job among the broadcast messages, as (step, progress), in
  the order they were sent: one per call of \<open>updateProgress\<close>, which persists the same pair
  before it broadcasts.\<close>

fun progressOf :: "nat \<Rightarrow> WsMessage \<Rightarrow> (AutomationStep \<times> nat) list" where
  "progressOf automationId (ProgressEvent i step progress msg t) =
     (if i = automationId then [(step, progress)] else [])"
| "progressOf automationId (LogEvent level msg i metadata t) = []"

definition progressTrace :: "nat \<Rightarrow> WsMessage list \<Rightarrow> (AutomationStep \<times> nat) list" where
  "progressTrace automationId msgs = concat (map (progressOf automationId) msgs)"

text \<open>Whether the storage holds the job.\<close>

definition jobExists :: "nat \<Rightarrow> Service \<Rightarrow> bool" where
  "jobExists automationId sv = (getAutomation automationId (storage sv) \<noteq> None)"

text \<open>Status and error message of a stored job.\<close>

definition jobStatus :: "nat \<Rightarrow> Service \<Rightarrow> string option" where
  "jobStatus automationId sv = map_option a_status (getAutomation automationId (storage sv))"

definition jobError :: "nat \<Rightarrow> Service \<Rightarrow> string option" where
  "jobError automationId sv =
     (case getAutomation automationId (storage sv) of None \<Rightarrow> None | Some a \<Rightarrow> a_errorMessage a)"

section \<open>Example data\<close>

text \<open>A pending job of broker 1, codes, settings, probe outcomes and surroundings, for the
  closed instances below.\<close>

definition exampleJob :: Automation where
  "exampleJob =
     \<lparr>a_id = 1, a_propertyCode = ''AP100'', a_olxCode = ''HA00011'', a_univenCode = ''AP100'',
      a_brokerId = 1, a_status = ''pending'', a_progress = Some 0, a_currentStep = None,
      a_videoUrl = None, a_tourUrl = None, a_propertyData = None, a_errorMessage = None,
      a_createdAt = Some 500, a_completedAt = None\<rparr>"

definition exampleCode :: "nat \<Rightarrow> string \<Rightarrow> OlxCode" where
  "exampleCode i code =
     \<lparr>c_id = i, c_code = code, c_brokerId = Some 1, c_isUsed = False, c_isHighlighted = False,
      c_isActive = True, c_currentAutomationId = None, c_univenCode = None, c_createdAt = 0\<rparr>"

definition exampleSetting :: "nat \<Rightarrow> string \<Rightarrow> json \<Rightarrow> string \<times> Settings" where
  "exampleSetting i k v = (k, \<lparr>s_id = i, s_key = k, s_value = v, s_updatedAt = 0\<rparr>)"

definition emptyStorage :: MemStorage where
  "emptyStorage =
     \<lparr>automations = [], olxCodes = [], systemLogs = [], settings = [],
      currentAutomationId = 1, currentOlxCodeId = 1, currentLogId = 1, currentSettingId = 1\<rparr>"

definition sourceCredentials :: "(string \<times> Settings) list" where
  "sourceCredentials =
     [exampleSetting 1 ''univenUsername'' (JStr ''corretor''),
      exampleSetting 2 ''univenPassword'' (JStr ''segredo'')]"

definition targetCredentials :: "(string \<times> Settings) list" where
  "targetCredentials =
     [exampleSetting 3 ''olxEmail'' (JStr ''corretor@example.com''),
      exampleSetting 4 ''olxPassword'' (JStr ''segredo'')]"

definition storageWith :: "(string \<times> Settings) list \<Rightarrow> (nat \<times> OlxCode) list \<Rightarrow> MemStorage" where
  "storageWith ss codes =
     emptyStorage\<lparr>automations := [(1, exampleJob)], olxCodes := codes, settings := ss,
                  currentAutomationId := 2, currentOlxCodeId := 3, currentSettingId := 5\<rparr>"

definition twoCodes :: "(nat \<times> OlxCode) list" where
  "twoCodes = [(1, exampleCode 1 ''HA00011''), (2, exampleCode 2 ''HA00012'')]"

definition noFreeCodes :: "(nat \<times> OlxCode) list" where
  "noFreeCodes =
     [(1, (exampleCode 1 ''HA00011'')\<lparr>c_isUsed := True, c_currentAutomationId := Some 7\<rparr>),
      (2, (exampleCode 2 ''HA00012'')\<lparr>c_brokerId := Some 2\<rparr>),
      (3, (exampleCode 3 ''HA00013'')\<lparr>c_isActive := False\<rparr>)]"

definition serviceOn :: "MemStorage \<Rightarrow> Service" where
  "serviceOn st = \<lparr>storage = st, activeAutomations = {}, browser = None, outbox = []\<rparr>"

definition probeOk :: "string \<Rightarrow> ProbeOutcome" where
  "probeOk p =
     \<lparr>po_logs = [(''info'', ''probe'')],
      po_result = \<lparr>success = True, message = ''ok'', platform = p, recommendation = None,
                   requiresCredentials = None\<rparr>\<rparr>"

definition probeDown :: "string \<Rightarrow> ProbeOutcome" where
  "probeDown p =
     \<lparr>po_logs = [(''error'', ''probe'')],
      po_result = \<lparr>success = False, message = (''Site inacess'' @ [CHR 0xED] @ ''vel''), platform = p,
                   recommendation = None, requiresCredentials = None\<rparr>\<rparr>"

definition exampleEnv1 :: "ProbeOutcome \<Rightarrow> Env1" where
  "exampleEnv1 univenOutcome =
     \<lparr>e1_now = 1000, e1_importError = None, e1_univenProbe = (\<lambda>u p. univenOutcome),
      e1_olxProbe = (\<lambda>u p. probeOk ''OLX Pro'')\<rparr>"

definition exampleEnv2 :: "thrown option \<Rightarrow> Env2" where
  "exampleEnv2 launchError =
     \<lparr>e2_now = 1000, e2_launchError = launchError, e2_newPageError_extract = None,
      e2_pageCloseError_extract = None, e2_newPageError_listing = None,
      e2_pageCloseError_listing = None, e2_randomPrice = 0, e2_randomArea = 0,
      e2_randomBedrooms = 0, e2_randomBathrooms = 0, e2_cwd = ''/app'', e2_dirExists = True,
      e2_mkdirError = None\<rparr>"


definition exampleLog :: "nat \<Rightarrow> int \<Rightarrow> SystemLog" where
  "exampleLog i t =
     \<lparr>l_id = i, l_level = ''info'', l_message = ''entry'', l_automationId = None,
      l_metadata = None, l_timestamp = t\<rparr>"

definition storageWithLogs :: MemStorage where
  "storageWithLogs =
     emptyStorage\<lparr>systemLogs := [(1, exampleLog 1 100), (2, exampleLog 2 200), (3, exampleLog 3 50)],
                  currentLogId := 4\<rparr>"

section \<open>Theorems\<close>

lemmas example_defs =
  exampleJob_def exampleCode_def exampleSetting_def emptyStorage_def sourceCredentials_def
  targetCredentials_def storageWith_def twoCodes_def noFreeCodes_def serviceOn_def probeOk_def
  probeDown_def exampleEnv1_def exampleEnv2_def

lemmas read_defs =
  getAutomation_def getSettings_def settingValue_def falsy_def getAvailableOlxCodes_def
  getOlxCodeByCode_def jobExists_def jobStatus_def jobError_def newError_def

subsection \<open>Retention sweep of the system logs\<close>

lemma logsToDelete_fold:
  "fold (\<lambda>(i, log) acc. if date_before (l_timestamp log) d then acc @ [i] else acc) logs acc0
   = acc0 @ map fst (filter (\<lambda>(i, log). date_before (l_timestamp log) d) logs)"
  by (induction logs arbitrary: acc0) (auto split: prod.splits)

lemma logsToDelete_eq:
  "logsToDelete d logs = map fst (filter (\<lambda>(i, log). date_before (l_timestamp log) d) logs)"
  by (simp add: logsToDelete_def logsToDelete_fold)

lemma filter_delete:
  "filter (\<lambda>(k', v). k' \<notin> set ks) (AList.delete k al)
   = filter (\<lambda>(k', v). k' \<notin> set (k # ks)) al"
  by (induction al) (auto simp: AList.delete_eq)

lemma delete_loop:
  "fold (\<lambda>i (deleteCount, s). (deleteCount + 1, s\<lparr>systemLogs := AList.delete i (systemLogs s)\<rparr>))
     ks (n, st)
   = (n + length ks, st\<lparr>systemLogs := filter (\<lambda>(k, v). k \<notin> set ks) (systemLogs st)\<rparr>)"
proof (induction ks arbitrary: n st)
  case Nil
  then show ?case by simp
next
  case (Cons k ks)
  show ?case
    by (simp only: fold_simps prod.case Cons.IH) (simp add: filter_delete)
qed

lemma older_keys:
  assumes "distinct (map fst logs)"
  shows "filter (\<lambda>(k, v). k \<notin> set (map fst (filter (\<lambda>(i, log). P log) logs))) logs
         = filter (\<lambda>(i, log). \<not> P log) logs"
proof (rule filter_cong[OF refl])
  fix x assume x: "x \<in> set logs"
  obtain k v where kv: "x = (k, v)" by (cases x)
  have "k \<in> fst ` {y \<in> set logs. P (snd y)} \<longleftrightarrow> P v"
  proof
    assume "k \<in> fst ` {y \<in> set logs. P (snd y)}"
    then obtain v' where "(k, v') \<in> set logs" "P v'" by auto
    with assms x kv have "v' = v" by (meson eq_key_imp_eq_value)
    with \<open>P v'\<close> show "P v" by simp
  next
    assume "P v"
    with x kv show "k \<in> fst ` {y \<in> set logs. P (snd y)}" by force
  qed
  moreover have "set (map fst (filter (\<lambda>(i, log). P log) logs)) = fst ` {y \<in> set logs. P (snd y)}"
    by (auto simp: case_prod_beta)
  ultimately show "(case x of (k, v) \<Rightarrow> k \<notin> set (map fst (filter (\<lambda>(i, log). P log) logs)))
                   = (case x of (i, log) \<Rightarrow> \<not> P log)"
    using kv by simp
qed

text \<open>
  C10. For a storage whose log map has distinct keys: with a cutoff, \<open>deleteSystemLogs\<close>
  returns the number of entries stamped strictly before the cutoff and leaves exactly the
  other entries, unchanged and in order, touching nothing else; without a cutoff it
  returns the size of the map and empties it.
\<close>

theorem deleteSystemLogs_removes_exactly_older:
  assumes "distinct (map fst (systemLogs st))"
  shows "deleteSystemLogs (Some d) st
           = (length (filter (\<lambda>(i, log). date_before (l_timestamp log) d) (systemLogs st)),
              st\<lparr>systemLogs := filter (\<lambda>(i, log). \<not> date_before (l_timestamp log) d) (systemLogs st)\<rparr>)
         \<and> deleteSystemLogs None st = (length (systemLogs st), st\<lparr>systemLogs := []\<rparr>)"
proof -
  have keep: "filter (\<lambda>(k, v). k \<notin> set (logsToDelete d (systemLogs st))) (systemLogs st)
        = filter (\<lambda>(i, log). \<not> date_before (l_timestamp log) d) (systemLogs st)"
    unfolding logsToDelete_eq
    by (rule older_keys[OF assms, of "\<lambda>log. date_before (l_timestamp log) d"])
  have n: "length (logsToDelete d (systemLogs st))
        = length (filter (\<lambda>(i, log). date_before (l_timestamp log) d) (systemLogs st))"
    by (simp add: logsToDelete_eq)
  have "deleteSystemLogs (Some d) st
        = (0 + length (logsToDelete d (systemLogs st)),
           st\<lparr>systemLogs := filter (\<lambda>(k, v). k \<notin> set (logsToDelete d (systemLogs st)))
                                 (systemLogs st)\<rparr>)"
    unfolding deleteSystemLogs_def by (simp only: option.case delete_loop)
  with keep n show ?thesis
    by (simp add: deleteSystemLogs_def)
qed

theorem deleteSystemLogs_removes_exactly_older_witness:
  "distinct (map fst (systemLogs storageWithLogs))
   \<and> deleteSystemLogs (Some (ValidDate 200)) storageWithLogs
       = (2, storageWithLogs\<lparr>systemLogs := [(2, exampleLog 2 200)]\<rparr>)
   \<and> deleteSystemLogs (Some InvalidDate) storageWithLogs = (0, storageWithLogs)
   \<and> deleteSystemLogs None storageWithLogs = (3, storageWithLogs\<lparr>systemLogs := []\<rparr>)"
  using deleteSystemLogs_removes_exactly_older [of storageWithLogs "ValidDate 200"]
        deleteSystemLogs_removes_exactly_older [of storageWithLogs InvalidDate]
  by (simp add: storageWithLogs_def emptyStorage_def exampleLog_def)

subsection \<open>What each operation leaves alone\<close>

lemma getAutomation_updateAutomation [simp]:
  "getAutomation j (snd (updateAutomation i f st))
   = (if j = i then map_option f (getAutomation i st) else getAutomation j st)"
  by (auto simp: getAutomation_def updateAutomation_def Let_def update_conv' split: option.splits)

lemma updateAutomation_frame [simp]:
  "olxCodes (snd (updateAutomation i f st)) = olxCodes st"
  "settings (snd (updateAutomation i f st)) = settings st"
  by (simp_all add: updateAutomation_def Let_def split: option.splits)

lemma createSystemLog_frame [simp]:
  "getAutomation j (createSystemLog now level msg a md st) = getAutomation j st"
  "olxCodes (createSystemLog now level msg a md st) = olxCodes st"
  "settings (createSystemLog now level msg a md st) = settings st"
  by (simp_all add: createSystemLog_def getAutomation_def Let_def jobExists_def)

lemma updateOlxCode_frame [simp]:
  "getAutomation j (snd (updateOlxCode i f st)) = getAutomation j st"
  "settings (snd (updateOlxCode i f st)) = settings st"
  by (simp_all add: updateOlxCode_def getAutomation_def Let_def split: option.splits)

lemma progressTrace_simps [simp]:
  "progressTrace i [] = []"
  "progressTrace i (xs @ ys) = progressTrace i xs @ progressTrace i ys"
  "progressTrace i (m # ms) = progressOf i m @ progressTrace i ms"
  by (simp_all add: progressTrace_def)

lemma log_v1_frame [simp]:
  "getAutomation j (storage (log_v1 now level msg a md sv)) = getAutomation j (storage sv)"
  "jobExists j (log_v1 now level msg a md sv) = jobExists j sv"
  "olxCodes (storage (log_v1 now level msg a md sv)) = olxCodes (storage sv)"
  "settings (storage (log_v1 now level msg a md sv)) = settings (storage sv)"
  "activeAutomations (log_v1 now level msg a md sv) = activeAutomations sv"
  "browser (log_v1 now level msg a md sv) = browser sv"
  "progressTrace j (outbox (log_v1 now level msg a md sv)) = progressTrace j (outbox sv)"
  by (simp_all add: log_v1_def broadcast_def jobExists_def)

lemma log_v2_frame [simp]:
  "getAutomation j (storage (log_v2 now level msg a md sv)) = getAutomation j (storage sv)"
  "jobExists j (log_v2 now level msg a md sv) = jobExists j sv"
  "olxCodes (storage (log_v2 now level msg a md sv)) = olxCodes (storage sv)"
  "settings (storage (log_v2 now level msg a md sv)) = settings (storage sv)"
  "activeAutomations (log_v2 now level msg a md sv) = activeAutomations sv"
  "browser (log_v2 now level msg a md sv) = browser sv"
  "progressTrace j (outbox (log_v2 now level msg a md sv)) = progressTrace j (outbox sv)"
  by (simp_all add: log_v2_def broadcast_def jobExists_def)

lemma updateProgress_v1_frame [simp]:
  "jobExists j (updateProgress_v1 now i step p msg sv) = jobExists j sv"
  "getAutomation j (storage (updateProgress_v1 now i step p msg sv))
   = (if j = i then map_option (\<lambda>a. a\<lparr>a_currentStep := Some step, a_progress := Some p\<rparr>)
                      (getAutomation i (storage sv))
      else getAutomation j (storage sv))"
  "olxCodes (storage (updateProgress_v1 now i step p msg sv)) = olxCodes (storage sv)"
  "settings (storage (updateProgress_v1 now i step p msg sv)) = settings (storage sv)"
  "activeAutomations (updateProgress_v1 now i step p msg sv) = activeAutomations sv"
  "browser (updateProgress_v1 now i step p msg sv) = browser sv"
  "progressTrace j (outbox (updateProgress_v1 now i step p msg sv))
   = progressTrace j (outbox sv) @ (if i = j then [(step, p)] else [])"
  by (simp_all add: updateProgress_v1_def broadcast_def Let_def jobExists_def)

lemma updateProgress_v2_frame [simp]:
  "jobExists j (updateProgress_v2 now i step p msg sv) = jobExists j sv"
  "getAutomation j (storage (updateProgress_v2 now i step p msg sv))
   = (if j = i then map_option (\<lambda>a. a\<lparr>a_currentStep := Some step, a_progress := Some p\<rparr>)
                      (getAutomation i (storage sv))
      else getAutomation j (storage sv))"
  "olxCodes (storage (updateProgress_v2 now i step p msg sv)) = olxCodes (storage sv)"
  "settings (storage (updateProgress_v2 now i step p msg sv)) = settings (storage sv)"
  "activeAutomations (updateProgress_v2 now i step p msg sv) = activeAutomations sv"
  "browser (updateProgress_v2 now i step p msg sv) = browser sv"
  "progressTrace j (outbox (updateProgress_v2 now i step p msg sv))
   = progressTrace j (outbox sv) @ (if i = j then [(step, p)] else [])"
  by (simp_all add: updateProgress_v2_def broadcast_def Let_def jobExists_def)

lemma probe_logs_frame:
  "getAutomation j (fold (\<lambda>(level, msg) st. createSystemLog now level msg None None st) ls st)
   = getAutomation j st
   \<and> olxCodes (fold (\<lambda>(level, msg) st. createSystemLog now level msg None None st) ls st) = olxCodes st
   \<and> settings (fold (\<lambda>(level, msg) st. createSystemLog now level msg None None st) ls st) = settings st"
  by (induction ls arbitrary: st) (auto split: prod.splits)

lemma runProbe_frame [simp]:
  "fst (runProbe now outcome sv) = po_result outcome"
  "getAutomation j (storage (snd (runProbe now outcome sv))) = getAutomation j (storage sv)"
  "jobExists j (snd (runProbe now outcome sv)) = jobExists j sv"
  "olxCodes (storage (snd (runProbe now outcome sv))) = olxCodes (storage sv)"
  "settings (storage (snd (runProbe now outcome sv))) = settings (storage sv)"
  "activeAutomations (snd (runProbe now outcome sv)) = activeAutomations sv"
  "browser (snd (runProbe now outcome sv)) = browser sv"
  "outbox (snd (runProbe now outcome sv)) = outbox sv"
  by (simp_all add: runProbe_def probe_logs_frame jobExists_def)

lemma extractPropertyData_v1_frame [simp]:
  "pd_code (fst (extractPropertyData_v1 now code i sv)) = code"
  "pd_photos (fst (extractPropertyData_v1 now code i sv)) = []"
  "getAutomation j (storage (snd (extractPropertyData_v1 now code i sv))) = getAutomation j (storage sv)"
  "jobExists j (snd (extractPropertyData_v1 now code i sv)) = jobExists j sv"
  "olxCodes (storage (snd (extractPropertyData_v1 now code i sv))) = olxCodes (storage sv)"
  "settings (storage (snd (extractPropertyData_v1 now code i sv))) = settings (storage sv)"
  "activeAutomations (snd (extractPropertyData_v1 now code i sv)) = activeAutomations sv"
  "browser (snd (extractPropertyData_v1 now code i sv)) = browser sv"
  "progressTrace j (outbox (snd (extractPropertyData_v1 now code i sv))) = progressTrace j (outbox sv)"
  by (simp_all add: extractPropertyData_v1_def Let_def jobExists_def)

lemma downloadPhotos_v1_frame [simp]:
  "fst (downloadPhotos_v1 now urls code i sv) = urls"
  "getAutomation j (storage (snd (downloadPhotos_v1 now urls code i sv))) = getAutomation j (storage sv)"
  "jobExists j (snd (downloadPhotos_v1 now urls code i sv)) = jobExists j sv"
  "olxCodes (storage (snd (downloadPhotos_v1 now urls code i sv))) = olxCodes (storage sv)"
  "settings (storage (snd (downloadPhotos_v1 now urls code i sv))) = settings (storage sv)"
  "activeAutomations (snd (downloadPhotos_v1 now urls code i sv)) = activeAutomations sv"
  "browser (snd (downloadPhotos_v1 now urls code i sv)) = browser sv"
  "progressTrace j (outbox (snd (downloadPhotos_v1 now urls code i sv))) = progressTrace j (outbox sv)"
  by (simp_all add: downloadPhotos_v1_def jobExists_def)

lemma createOLXListing_v1_frame [simp]:
  "getAutomation j (storage (snd (createOLXListing_v1 now pd a i sv))) = getAutomation j (storage sv)"
  "jobExists j (snd (createOLXListing_v1 now pd a i sv)) = jobExists j sv"
  "settings (storage (snd (createOLXListing_v1 now pd a i sv))) = settings (storage sv)"
  "activeAutomations (snd (createOLXListing_v1 now pd a i sv)) = activeAutomations sv"
  "browser (snd (createOLXListing_v1 now pd a i sv)) = browser sv"
  "progressTrace j (outbox (snd (createOLXListing_v1 now pd a i sv))) = progressTrace j (outbox sv)"
  by (simp_all add: createOLXListing_v1_def Let_def jobExists_def split: list.splits)

text \<open>The publish step of the first service, by the list of available codes.\<close>

lemma createOLXListing_v1_none:
  "getAvailableOlxCodes (a_brokerId a) (storage sv) = []
   \<Longrightarrow> fst (createOLXListing_v1 now pd a i sv) = Some (newError (''Nenhum c'' @ [CHR 0xF3] @ ''digo OLX dispon'' @ [CHR 0xED] @ ''vel''))
       \<and> olxCodes (storage (snd (createOLXListing_v1 now pd a i sv))) = olxCodes (storage sv)"
  by (simp add: createOLXListing_v1_def Let_def getAvailableOlxCodes_def)

lemma createOLXListing_v1_some:
  "getAvailableOlxCodes (a_brokerId a) (storage sv) = c # cs
   \<Longrightarrow> fst (createOLXListing_v1 now pd a i sv) = None
       \<and> olxCodes (storage (snd (createOLXListing_v1 now pd a i sv)))
         = olxCodes (snd (updateOlxCode (c_id c)
              (\<lambda>c. c\<lparr>c_isUsed := True, c_currentAutomationId := Some i,
                      c_univenCode := Some (pd_code pd)\<rparr>) (storage sv)))"
  by (simp add: createOLXListing_v1_def Let_def getAvailableOlxCodes_def updateOlxCode_def
      split: option.splits)

lemma getBrowser_v2_frame [simp]:
  "storage (snd (getBrowser_v2 le sv)) = storage sv"
  "jobExists j (snd (getBrowser_v2 le sv)) = jobExists j sv"
  "activeAutomations (snd (getBrowser_v2 le sv)) = activeAutomations sv"
  "outbox (snd (getBrowser_v2 le sv)) = outbox sv"
  by (simp_all add: getBrowser_v2_def puppeteer_launch_def Let_def jobExists_def split: option.splits)

lemma extractPropertyData_v2_frame [simp]:
  "getAutomation j (storage (snd (extractPropertyData_v2 env code i sv))) = getAutomation j (storage sv)"
  "jobExists j (snd (extractPropertyData_v2 env code i sv)) = jobExists j sv"
  "olxCodes (storage (snd (extractPropertyData_v2 env code i sv))) = olxCodes (storage sv)"
  "settings (storage (snd (extractPropertyData_v2 env code i sv))) = settings (storage sv)"
  "activeAutomations (snd (extractPropertyData_v2 env code i sv)) = activeAutomations sv"
  "progressTrace j (outbox (snd (extractPropertyData_v2 env code i sv))) = progressTrace j (outbox sv)"
  by (simp_all add: extractPropertyData_v2_def Let_def case_prod_beta jobExists_def split: sum.splits option.splits)

lemma downloadLoop_frame [simp]:
  "getAutomation j (storage (snd (downloadLoop now dir i n k urls acc sv))) = getAutomation j (storage sv)"
  "jobExists j (snd (downloadLoop now dir i n k urls acc sv)) = jobExists j sv"
  "olxCodes (storage (snd (downloadLoop now dir i n k urls acc sv))) = olxCodes (storage sv)"
  "settings (storage (snd (downloadLoop now dir i n k urls acc sv))) = settings (storage sv)"
  "activeAutomations (snd (downloadLoop now dir i n k urls acc sv)) = activeAutomations sv"
  "browser (snd (downloadLoop now dir i n k urls acc sv)) = browser sv"
  "progressTrace j (outbox (snd (downloadLoop now dir i n k urls acc sv))) = progressTrace j (outbox sv)"
  by (induction urls arbitrary: k acc sv; simp add: Let_def)+

lemma downloadPhotos_v2_frame [simp]:
  "getAutomation j (storage (snd (downloadPhotos_v2 env urls code i sv))) = getAutomation j (storage sv)"
  "jobExists j (snd (downloadPhotos_v2 env urls code i sv)) = jobExists j sv"
  "olxCodes (storage (snd (downloadPhotos_v2 env urls code i sv))) = olxCodes (storage sv)"
  "settings (storage (snd (downloadPhotos_v2 env urls code i sv))) = settings (storage sv)"
  "activeAutomations (snd (downloadPhotos_v2 env urls code i sv)) = activeAutomations sv"
  "browser (snd (downloadPhotos_v2 env urls code i sv)) = browser sv"
  "progressTrace j (outbox (snd (downloadPhotos_v2 env urls code i sv))) = progressTrace j (outbox sv)"
  by (simp_all add: downloadPhotos_v2_def Let_def case_prod_beta jobExists_def split: option.splits)

lemma createOLXListing_try_v2_frame [simp]:
  "getAutomation j (storage (snd (createOLXListing_try_v2 now a i sv))) = getAutomation j (storage sv)"
  "jobExists j (snd (createOLXListing_try_v2 now a i sv)) = jobExists j sv"
  "olxCodes (storage (snd (createOLXListing_try_v2 now a i sv))) = olxCodes (storage sv)"
  "settings (storage (snd (createOLXListing_try_v2 now a i sv))) = settings (storage sv)"
  "activeAutomations (snd (createOLXListing_try_v2 now a i sv)) = activeAutomations sv"
  "browser (snd (createOLXListing_try_v2 now a i sv)) = browser sv"
  "progressTrace j (outbox (snd (createOLXListing_try_v2 now a i sv))) = progressTrace j (outbox sv)"
  by (simp_all add: createOLXListing_try_v2_def Let_def getOlxCodeByCode_def jobExists_def split: option.splits)

lemma createOLXListing_v2_frame [simp]:
  "getAutomation j (storage (snd (createOLXListing_v2 env pd a paths i sv))) = getAutomation j (storage sv)"
  "jobExists j (snd (createOLXListing_v2 env pd a paths i sv)) = jobExists j sv"
  "olxCodes (storage (snd (createOLXListing_v2 env pd a paths i sv))) = olxCodes (storage sv)"
  "settings (storage (snd (createOLXListing_v2 env pd a paths i sv))) = settings (storage sv)"
  "activeAutomations (snd (createOLXListing_v2 env pd a paths i sv)) = activeAutomations sv"
  "progressTrace j (outbox (snd (createOLXListing_v2 env pd a paths i sv))) = progressTrace j (outbox sv)"
  by (simp_all add: createOLXListing_v2_def Let_def case_prod_beta jobExists_def split: sum.splits option.splits)

lemma getAvailableOlxCodes_cong:
  "olxCodes st = olxCodes st' \<Longrightarrow> getAvailableOlxCodes b st = getAvailableOlxCodes b st'"
  by (simp add: getAvailableOlxCodes_def)

lemma updateOlxCode_cong:
  "olxCodes st = olxCodes st'
   \<Longrightarrow> olxCodes (snd (updateOlxCode k f st)) = olxCodes (snd (updateOlxCode k f st'))"
  by (simp add: updateOlxCode_def Let_def split: option.splits)

lemma available_frame_v1 [simp]:
  "getAvailableOlxCodes b (storage (log_v1 now level msg ai md sv)) = getAvailableOlxCodes b (storage sv)"
  "getAvailableOlxCodes b (storage (updateProgress_v1 now i step p msg sv)) = getAvailableOlxCodes b (storage sv)"
  "getAvailableOlxCodes b (storage (snd (runProbe now outcome sv))) = getAvailableOlxCodes b (storage sv)"
  "getAvailableOlxCodes b (storage (snd (extractPropertyData_v1 now code i sv))) = getAvailableOlxCodes b (storage sv)"
  "getAvailableOlxCodes b (storage (snd (downloadPhotos_v1 now urls code i sv))) = getAvailableOlxCodes b (storage sv)"
  by (rule getAvailableOlxCodes_cong, simp)+

lemma updateOlxCode_frame_v1 [simp]:
  "olxCodes (snd (updateOlxCode k f (storage (log_v1 now level msg ai md sv))))
   = olxCodes (snd (updateOlxCode k f (storage sv)))"
  "olxCodes (snd (updateOlxCode k f (storage (updateProgress_v1 now i step p msg sv))))
   = olxCodes (snd (updateOlxCode k f (storage sv)))"
  "olxCodes (snd (updateOlxCode k f (storage (snd (runProbe now outcome sv)))))
   = olxCodes (snd (updateOlxCode k f (storage sv)))"
  "olxCodes (snd (updateOlxCode k f (storage (snd (extractPropertyData_v1 now code i sv)))))
   = olxCodes (snd (updateOlxCode k f (storage sv)))"
  "olxCodes (snd (updateOlxCode k f (storage (snd (downloadPhotos_v1 now urls code i sv)))))
   = olxCodes (snd (updateOlxCode k f (storage sv)))"
  by (rule updateOlxCode_cong, simp)+

subsection \<open>The first service as a whole\<close>

lemma jobExists_update [simp]:
  "jobExists j (sv\<lparr>activeAutomations := A\<rparr>) = jobExists j sv"
  "jobExists j (sv\<lparr>storage := snd (updateAutomation i f (storage sv))\<rparr>) = jobExists j sv"
  "jobExists j (sv\<lparr>storage := snd (updateOlxCode k g (storage sv))\<rparr>) = jobExists j sv"
  by (simp_all add: jobExists_def)

lemma createOLXListing_v1_thrown:
  "fst (createOLXListing_v1 now pd a i sv)
   = (if getAvailableOlxCodes (a_brokerId a) (storage sv) = []
      then Some (newError (''Nenhum c'' @ [CHR 0xF3] @ ''digo OLX dispon'' @ [CHR 0xED] @ ''vel'')) else None)"
  by (simp add: createOLXListing_v1_def Let_def split: list.splits)

lemma createOLXListing_v1_codes:
  "olxCodes (storage (snd (createOLXListing_v1 now pd a i sv)))
   = (case getAvailableOlxCodes (a_brokerId a) (storage sv) of
        [] \<Rightarrow> olxCodes (storage sv)
      | c # cs \<Rightarrow>
          olxCodes (snd (updateOlxCode (c_id c)
             (\<lambda>c. c\<lparr>c_isUsed := True, c_currentAutomationId := Some i,
                     c_univenCode := Some (pd_code pd)\<rparr>) (storage sv))))"
  by (simp add: createOLXListing_v1_def Let_def split: list.splits)

lemma publish_v1_frame [simp]:
  "activeAutomations (snd (startAutomation_publish_v1 env pd a i sv)) = activeAutomations sv"
  "settings (storage (snd (startAutomation_publish_v1 env pd a i sv))) = settings (storage sv)"
  "jobExists j (snd (startAutomation_publish_v1 env pd a i sv)) = jobExists j sv"
  by (simp_all add: startAutomation_publish_v1_def Let_def case_prod_beta
      split: option.splits)

lemma publish_v1_thrown:
  "fst (startAutomation_publish_v1 env pd a i sv)
   = (if getAvailableOlxCodes (a_brokerId a) (storage sv) = []
      then Some (newError (''Nenhum c'' @ [CHR 0xF3] @ ''digo OLX dispon'' @ [CHR 0xED] @ ''vel'')) else None)"
  by (simp add: startAutomation_publish_v1_def Let_def case_prod_beta createOLXListing_v1_thrown
      split: option.splits)

lemma publish_v1_codes:
  "olxCodes (storage (snd (startAutomation_publish_v1 env pd a i sv)))
   = (case getAvailableOlxCodes (a_brokerId a) (storage sv) of
        [] \<Rightarrow> olxCodes (storage sv)
      | c # cs \<Rightarrow>
          olxCodes (snd (updateOlxCode (c_id c)
             (\<lambda>c. c\<lparr>c_isUsed := True, c_currentAutomationId := Some i,
                     c_univenCode := Some (pd_code pd)\<rparr>) (storage sv))))"
  by (simp add: startAutomation_publish_v1_def Let_def case_prod_beta createOLXListing_v1_codes
      split: option.splits list.splits)



lemma rest_v1_frame [simp]:
  "activeAutomations (snd (startAutomation_rest_v1 env a i sv)) = activeAutomations sv"
  "settings (storage (snd (startAutomation_rest_v1 env a i sv))) = settings (storage sv)"
  "jobExists j (snd (startAutomation_rest_v1 env a i sv)) = jobExists j sv"
  by (simp_all add: startAutomation_rest_v1_def Let_def case_prod_beta getSettings_def)

lemma rest_v1_thrown:
  "fst (startAutomation_rest_v1 env a i sv)
   = (if falsy (settingValue ''olxEmail'' (getSettings (storage sv)))
         \<or> falsy (settingValue ''olxPassword'' (getSettings (storage sv)))
      then Some (newError (''Credenciais OLX n'' @ [CHR 0xE3] @ ''o configuradas''))
      else if getAvailableOlxCodes (a_brokerId a) (storage sv) = []
      then Some (newError (''Nenhum c'' @ [CHR 0xF3] @ ''digo OLX dispon'' @ [CHR 0xED] @ ''vel'')) else None)"
  by (simp add: startAutomation_rest_v1_def Let_def case_prod_beta getSettings_def
      publish_v1_thrown)

lemma rest_v1_codes:
  "olxCodes (storage (snd (startAutomation_rest_v1 env a i sv)))
   = (if fst (startAutomation_rest_v1 env a i sv) = None
      then (case getAvailableOlxCodes (a_brokerId a) (storage sv) of
              [] \<Rightarrow> olxCodes (storage sv)
            | c # cs \<Rightarrow>
                olxCodes (snd (updateOlxCode (c_id c)
                   (\<lambda>c. c\<lparr>c_isUsed := True, c_currentAutomationId := Some i,
                           c_univenCode := Some (a_univenCode a)\<rparr>) (storage sv))))
      else olxCodes (storage sv))"
  unfolding rest_v1_thrown
  by (simp add: startAutomation_rest_v1_def Let_def case_prod_beta getSettings_def
      publish_v1_codes split: list.splits)



lemma rest_v1_ignores_olxProbe:
  "falsy (settingValue ''olxEmail'' (getSettings (storage sv)))
     \<or> falsy (settingValue ''olxPassword'' (getSettings (storage sv)))
   \<Longrightarrow> startAutomation_rest_v1 (env\<lparr>e1_univenProbe := p, e1_olxProbe := q\<rparr>) a i sv
       = startAutomation_rest_v1 env a i sv"
  by (auto simp add: startAutomation_rest_v1_def Let_def case_prod_beta getSettings_def)

lemma try_v1_frame [simp]:
  "activeAutomations (snd (startAutomation_try_v1 env i sv)) = insert i (activeAutomations sv)"
  "settings (storage (snd (startAutomation_try_v1 env i sv))) = settings (storage sv)"
  "jobExists j (snd (startAutomation_try_v1 env i sv)) = jobExists j sv"
  by (simp_all add: startAutomation_try_v1_def Let_def case_prod_beta getSettings_def
      split: option.splits)

text \<open>What the \<open>try\<close> block of the first service throws, read off the job, the import, the
  credentials, the source probe and the codes.\<close>

lemma try_v1_thrown:
  "fst (startAutomation_try_v1 env i sv)
   = (case getAutomation i (storage sv) of
        None \<Rightarrow> Some (newError (''Automation '' @ string_of_nat i @ '' not found''))
      | Some a \<Rightarrow>
          (case e1_importError env of
             Some e \<Rightarrow> Some e
           | None \<Rightarrow>
               if falsy (settingValue ''univenUsername'' (getSettings (storage sv)))
                  \<or> falsy (settingValue ''univenPassword'' (getSettings (storage sv)))
               then Some (newError (''Credenciais UNIVEN n'' @ [CHR 0xE3] @ ''o configuradas''))
               else if \<not> success (po_result (e1_univenProbe env
                            (the (settingValue ''univenUsername'' (getSettings (storage sv))))
                            (the (settingValue ''univenPassword'' (getSettings (storage sv))))))
               then Some (newError ((''Falha na conex'' @ [CHR 0xE3] @ ''o UNIVEN: '')
                        @ message (po_result (e1_univenProbe env
                            (the (settingValue ''univenUsername'' (getSettings (storage sv))))
                            (the (settingValue ''univenPassword'' (getSettings (storage sv))))))))
               else if falsy (settingValue ''olxEmail'' (getSettings (storage sv)))
                  \<or> falsy (settingValue ''olxPassword'' (getSettings (storage sv)))
               then Some (newError (''Credenciais OLX n'' @ [CHR 0xE3] @ ''o configuradas''))
               else if getAvailableOlxCodes (a_brokerId a) (storage sv) = []
               then Some (newError (''Nenhum c'' @ [CHR 0xF3] @ ''digo OLX dispon'' @ [CHR 0xED] @ ''vel'')) else None))"
  by (simp add: startAutomation_try_v1_def Let_def case_prod_beta getSettings_def rest_v1_thrown
      split: option.splits)

lemma try_v1_codes:
  "getAutomation i (storage sv) = Some a
   \<Longrightarrow> olxCodes (storage (snd (startAutomation_try_v1 env i sv)))
       = (if fst (startAutomation_try_v1 env i sv) = None
          then (case getAvailableOlxCodes (a_brokerId a) (storage sv) of
                  [] \<Rightarrow> olxCodes (storage sv)
                | c # cs \<Rightarrow>
                    olxCodes (snd (updateOlxCode (c_id c)
                       (\<lambda>c. c\<lparr>c_isUsed := True, c_currentAutomationId := Some i,
                               c_univenCode := Some (a_univenCode a)\<rparr>) (storage sv))))
          else olxCodes (storage sv))"
  unfolding try_v1_thrown
  by (simp add: startAutomation_try_v1_def Let_def case_prod_beta getSettings_def
      rest_v1_codes rest_v1_thrown split: option.splits list.splits)

lemma try_v1_codes_missing:
  "getAutomation i (storage sv) = None
   \<Longrightarrow> olxCodes (storage (snd (startAutomation_try_v1 env i sv))) = olxCodes (storage sv)"
  by (simp add: startAutomation_try_v1_def Let_def)



lemma catch_v1_frame [simp]:
  "activeAutomations (startAutomation_catch_v1 now i e sv) = activeAutomations sv"
  "olxCodes (storage (startAutomation_catch_v1 now i e sv)) = olxCodes (storage sv)"
  "getAutomation j (storage (startAutomation_catch_v1 now i e sv))
   = (if j = i then map_option (\<lambda>a. a\<lparr>a_status := ''failed'', a_errorMessage := Some (errorMsg_v1 e)\<rparr>)
                      (getAutomation i (storage sv))
      else getAutomation j (storage sv))"
  "progressTrace j (outbox (startAutomation_catch_v1 now i e sv)) = progressTrace j (outbox sv)"
  by (simp_all add: startAutomation_catch_v1_def Let_def)


lemma startAutomation_v1_thrown:
  assumes "fst (startAutomation_try_v1 env i sv) = Some e" and "jobExists i sv"
  shows "\<exists>a'. getAutomation i (storage (startAutomation_v1 env i sv))
              = Some (a'\<lparr>a_status := ''failed'', a_errorMessage := Some (errorMsg_v1 e)\<rparr>)"
proof -
  from assms(2) have "jobExists i (snd (startAutomation_try_v1 env i sv))" by simp
  then obtain a' where "getAutomation i (storage (snd (startAutomation_try_v1 env i sv))) = Some a'"
    by (auto simp: jobExists_def)
  with assms(1) show ?thesis
    by (intro exI[of _ a']) (simp add: startAutomation_v1_def Let_def case_prod_beta)
qed



subsection \<open>The second service as a whole\<close>

lemma rest_v2_frame [simp]:
  "activeAutomations (snd (startAutomation_rest_v2 env a pd i sv)) = activeAutomations sv"
  "olxCodes (storage (snd (startAutomation_rest_v2 env a pd i sv))) = olxCodes (storage sv)"
  "jobExists j (snd (startAutomation_rest_v2 env a pd i sv)) = jobExists j sv"
  by (simp_all add: startAutomation_rest_v2_def Let_def case_prod_beta
      split: option.splits)

lemma try_v2_frame [simp]:
  "activeAutomations (snd (startAutomation_try_v2 env i sv)) = activeAutomations sv"
  "olxCodes (storage (snd (startAutomation_try_v2 env i sv))) = olxCodes (storage sv)"
  "jobExists j (snd (startAutomation_try_v2 env i sv)) = jobExists j sv"
  by (simp_all add: startAutomation_try_v2_def Let_def case_prod_beta
      split: option.splits sum.splits)

lemma catch_v2_frame [simp]:
  "activeAutomations (startAutomation_catch_v2 now i e sv) = activeAutomations sv"
  "olxCodes (storage (startAutomation_catch_v2 now i e sv)) = olxCodes (storage sv)"
  "getAutomation j (storage (startAutomation_catch_v2 now i e sv))
   = (if j = i then map_option (\<lambda>a. a\<lparr>a_status := ''failed'', a_errorMessage := Some (errorMsg_v2 e)\<rparr>)
                      (getAutomation i (storage sv))
      else getAutomation j (storage sv))"
  "progressTrace j (outbox (startAutomation_catch_v2 now i e sv)) = progressTrace j (outbox sv)"
  by (simp_all add: startAutomation_catch_v2_def Let_def)


lemma startAutomation_v2_codes:
  "olxCodes (storage (startAutomation_v2 env i sv)) = olxCodes (storage sv)"
  by (simp add: startAutomation_v2_def Let_def case_prod_beta split: option.splits)

lemma startAutomation_v2_guard:
  "i \<in> activeAutomations sv
   \<Longrightarrow> startAutomation_v2 env i sv
       = log_v2 (e2_now env) ''warning''
           (''Automation '' @ string_of_nat i @ '' is already running'') (Some i) None sv"
  by (simp add: startAutomation_v2_def)






subsection \<open>The second service, step by step\<close>

lemma getBrowser_v2_launched:
  "\<exists>b. fst (getBrowser_v2 None sv) = Inr b"
  by (simp add: getBrowser_v2_def puppeteer_launch_def Let_def)


lemma extractPropertyData_v2_returns:
  assumes "e2_launchError env = None" "e2_newPageError_extract env = None"
          "e2_pageCloseError_extract env = None"
  shows "\<exists>pd. fst (extractPropertyData_v2 env code i sv) = Inr pd"
  using assms getBrowser_v2_launched[of sv]
  by (auto simp add: extractPropertyData_v2_def Let_def case_prod_beta split: sum.splits)


lemma createOLXListing_try_v2_thrown:
  "fst (createOLXListing_try_v2 now a i sv)
   = (case getOlxCodeByCode (a_olxCode a) (storage sv) of
        None \<Rightarrow> Some (newError (''OLX code '' @ a_olxCode a @ '' not found''))
      | Some c \<Rightarrow> None)"
  by (simp add: createOLXListing_try_v2_def Let_def getOlxCodeByCode_def split: option.splits)

lemma createOLXListing_v2_thrown:
  assumes "e2_launchError env = None" "e2_newPageError_listing env = None"
          "e2_pageCloseError_listing env = None"
  shows "fst (createOLXListing_v2 env pd a paths i sv)
         = (case getOlxCodeByCode (a_olxCode a) (storage sv) of
              None \<Rightarrow> Some (newError (''OLX code '' @ a_olxCode a @ '' not found''))
            | Some c \<Rightarrow> None)"
  using assms getBrowser_v2_launched[of sv]
  by (auto simp add: createOLXListing_v2_def Let_def case_prod_beta createOLXListing_try_v2_thrown
      getOlxCodeByCode_def split: sum.splits option.splits)

lemma rest_v2_thrown:
  assumes "e2_launchError env = None" "e2_newPageError_listing env = None"
          "e2_pageCloseError_listing env = None"
  shows "fst (startAutomation_rest_v2 env a pd i sv)
         = (case getOlxCodeByCode (a_olxCode a) (storage sv) of
              None \<Rightarrow> Some (newError (''OLX code '' @ a_olxCode a @ '' not found''))
            | Some c \<Rightarrow> None)"
  by (simp add: startAutomation_rest_v2_def Let_def case_prod_beta
      createOLXListing_v2_thrown[OF assms] getOlxCodeByCode_def split: option.splits)

lemma try_v2_thrown:
  assumes "getAutomation i (storage sv) = Some a"
          "e2_launchError env = None" "e2_newPageError_extract env = None"
          "e2_pageCloseError_extract env = None" "e2_newPageError_listing env = None"
          "e2_pageCloseError_listing env = None"
  shows "fst (startAutomation_try_v2 env i sv)
         = (case getOlxCodeByCode (a_olxCode a) (storage sv) of
              None \<Rightarrow> Some (newError (''OLX code '' @ a_olxCode a @ '' not found''))
            | Some c \<Rightarrow> None)"
proof -
  let ?sv = "updateProgress_v2 (e2_now env) i connecting_univen 10 ''Connecting to UNIVEN system...''
               (log_v2 (e2_now env) ''info'' (''Starting automation for property '' @ a_propertyCode a)
                  (Some i) None
                  (sv\<lparr>storage := snd (updateAutomation i (\<lambda>a. a\<lparr>a_status := ''processing''\<rparr>) (storage sv))\<rparr>))"
  obtain pd where pd: "fst (extractPropertyData_v2 env (a_propertyCode a) i ?sv) = Inr pd"
    using extractPropertyData_v2_returns[OF assms(2,3,4)] by blast
  show ?thesis
    using assms(1) pd
    by (simp add: startAutomation_try_v2_def Let_def case_prod_beta
        rest_v2_thrown[OF assms(2,5,6)] getOlxCodeByCode_def split: option.splits)
qed


lemma rest_v2_completed:
  "fst (startAutomation_rest_v2 env a pd i sv) = None
   \<Longrightarrow> getAutomation i (storage (snd (startAutomation_rest_v2 env a pd i sv)))
       = map_option (\<lambda>a. a\<lparr>a_currentStep := Some finalizing, a_progress := Some 100,
                            a_status := ''completed'', a_propertyData := Some pd,
                            a_completedAt := Some (e2_now env)\<rparr>)
           (getAutomation i (storage sv))"
  by (cases "getAutomation i (storage sv)")
     (simp_all add: startAutomation_rest_v2_def Let_def case_prod_beta split: option.splits)

lemma try_v2_completed:
  assumes "fst (startAutomation_try_v2 env i sv) = None"
  shows "\<exists>a'. getAutomation i (storage (snd (startAutomation_try_v2 env i sv))) = Some a'
              \<and> a_status a' = ''completed'' \<and> a_progress a' = Some 100
              \<and> a_currentStep a' = Some finalizing \<and> a_completedAt a' = Some (e2_now env)"
proof (cases "getAutomation i (storage sv)")
  case None
  with assms show ?thesis by (simp add: startAutomation_try_v2_def)
next
  case (Some a)
  let ?sv = "updateProgress_v2 (e2_now env) i connecting_univen 10 ''Connecting to UNIVEN system...''
               (log_v2 (e2_now env) ''info'' (''Starting automation for property '' @ a_propertyCode a)
                  (Some i) None
                  (sv\<lparr>storage := snd (updateAutomation i (\<lambda>a. a\<lparr>a_status := ''processing''\<rparr>) (storage sv))\<rparr>))"
  let ?x = "extractPropertyData_v2 env (a_propertyCode a) i ?sv"
  from assms Some obtain pd where pd: "fst ?x = Inr pd"
      and r: "fst (startAutomation_rest_v2 env a pd i (snd ?x)) = None"
      and s: "snd (startAutomation_try_v2 env i sv) = snd (startAutomation_rest_v2 env a pd i (snd ?x))"
    by (auto simp add: startAutomation_try_v2_def Let_def case_prod_beta split: sum.splits)
  have "getAutomation i (storage (snd ?x)) \<noteq> None"
    using Some by simp
  with rest_v2_completed[OF r] s show ?thesis by auto
qed

lemma startAutomation_v2_returned:
  assumes "i \<notin> activeAutomations sv"
      and "fst (startAutomation_try_v2 env i (sv\<lparr>activeAutomations := insert i (activeAutomations sv)\<rparr>)) = None"
  shows "\<exists>a'. getAutomation i (storage (startAutomation_v2 env i sv)) = Some a'
              \<and> a_status a' = ''completed'' \<and> a_progress a' = Some 100
              \<and> a_currentStep a' = Some finalizing \<and> a_completedAt a' = Some (e2_now env)"
  using assms try_v2_completed[OF assms(2)]
  by (simp add: startAutomation_v2_def Let_def case_prod_beta)

subsection \<open>Failed and completed runs\<close>

lemma startAutomation_v1_failed:
  assumes "fst (startAutomation_try_v1 env i sv) = Some e" and "jobExists i sv"
  shows "jobStatus i (startAutomation_v1 env i sv) = Some ''failed''"
    and "jobError i (startAutomation_v1 env i sv) = Some (errorMsg_v1 e)"
  using startAutomation_v1_thrown[OF assms] by (auto simp: jobStatus_def jobError_def)


lemma startAutomation_v1_codes:
  "olxCodes (storage (startAutomation_v1 env i sv)) = olxCodes (storage (snd (startAutomation_try_v1 env i sv)))"
  by (simp add: startAutomation_v1_def Let_def case_prod_beta split: option.splits)





text \<open>The guard of the second service: a start of an active job only logs.\<close>

lemma second_service_guard:
  assumes "i \<in> activeAutomations sv"
  shows "automations (storage (startAutomation_v2 env i sv)) = automations (storage sv)"
    and "olxCodes (storage (startAutomation_v2 env i sv)) = olxCodes (storage sv)"
    and "activeAutomations (startAutomation_v2 env i sv) = activeAutomations sv"
    and "outbox (startAutomation_v2 env i sv)
         = outbox sv @ [LogEvent ''warning''
                          (''Automation '' @ string_of_nat i @ '' is already running'')
                          (Some i) None (e2_now env)]"
  using assms
  by (simp_all add: startAutomation_v2_def log_v2_def broadcast_def createSystemLog_def)

subsection \<open>The connectivity test and the two services\<close>







text \<open>
  C3 (the second service, lines 602-658 and 739-788, on a run that succeeds). The job
  ends completed with progress 100 and a completion time, and no code has changed: both
  codes of the broker are as available after the run as before.
\<close>

theorem second_service_completes_without_claiming:
  "(\<exists>a'. getAutomation 1 (storage (startAutomation_v2 (exampleEnv2 None) 1
              (serviceOn (storageWith [] twoCodes)))) = Some a'
          \<and> a_status a' = ''completed'' \<and> a_progress a' = Some 100
          \<and> a_completedAt a' = Some 1000)
   \<and> olxCodes (storage (startAutomation_v2 (exampleEnv2 None) 1 (serviceOn (storageWith [] twoCodes))))
       = twoCodes
   \<and> getAvailableOlxCodes 1 (storage (startAutomation_v2 (exampleEnv2 None) 1
        (serviceOn (storageWith [] twoCodes)))) = map snd twoCodes"
proof -
  let ?sv = "serviceOn (storageWith [] twoCodes)"
  have n: "1 \<notin> activeAutomations ?sv" by (simp add: serviceOn_def)
  have ret: "fst (startAutomation_try_v2 (exampleEnv2 None) 1
               (?sv\<lparr>activeAutomations := insert 1 (activeAutomations ?sv)\<rparr>)) = None"
    by (subst try_v2_thrown[where a = exampleJob]) (simp_all add: read_defs example_defs)
  have c: "olxCodes (storage (startAutomation_v2 (exampleEnv2 None) 1 ?sv)) = twoCodes"
    by (simp add: startAutomation_v2_codes) (simp add: example_defs)
  have "getAvailableOlxCodes 1 (storage (startAutomation_v2 (exampleEnv2 None) 1 ?sv)) = map snd twoCodes"
    unfolding getAvailableOlxCodes_def c by (simp add: example_defs)
  with startAutomation_v2_returned[OF n ret] c show ?thesis
    by (auto simp: exampleEnv2_def)
qed








text \<open>
  C7. In the first service, when the run reaches the publish step (the job is stored, the
  import and both credential checks pass, the source probe succeeds) and no code of the
  job's broker is available, the job ends failed with the message of line 413, which is
  not the generic message of the \<open>catch\<close> clause, and the codes are as before.
\<close>

theorem no_available_code_fails_the_job:
  assumes "getAutomation automationId (storage sv) = Some a"
      and "e1_importError env = None"
      and "\<not> falsy (settingValue ''univenUsername'' (getSettings (storage sv)))"
      and "\<not> falsy (settingValue ''univenPassword'' (getSettings (storage sv)))"
      and "success (po_result (e1_univenProbe env
              (the (settingValue ''univenUsername'' (getSettings (storage sv))))
              (the (settingValue ''univenPassword'' (getSettings (storage sv))))))"
      and "\<not> falsy (settingValue ''olxEmail'' (getSettings (storage sv)))"
      and "\<not> falsy (settingValue ''olxPassword'' (getSettings (storage sv)))"
      and "getAvailableOlxCodes (a_brokerId a) (storage sv) = []"
  shows "jobStatus automationId (startAutomation_v1 env automationId sv) = Some ''failed''
       \<and> jobError automationId (startAutomation_v1 env automationId sv)
           = Some (''Nenhum c'' @ [CHR 0xF3] @ ''digo OLX dispon'' @ [CHR 0xED] @ ''vel'')
       \<and> (''Nenhum c'' @ [CHR 0xF3] @ ''digo OLX dispon'' @ [CHR 0xED] @ ''vel'') \<noteq> ''Erro desconhecido''
       \<and> olxCodes (storage (startAutomation_v1 env automationId sv)) = olxCodes (storage sv)"
proof -
  have t: "fst (startAutomation_try_v1 env automationId sv)
           = Some (newError (''Nenhum c'' @ [CHR 0xF3] @ ''digo OLX dispon'' @ [CHR 0xED] @ ''vel''))"
    using assms by (simp add: try_v1_thrown)
  have j: "jobExists automationId sv" using assms(1) by (simp add: jobExists_def)
  have c: "olxCodes (storage (startAutomation_v1 env automationId sv)) = olxCodes (storage sv)"
    using try_v1_codes[OF assms(1), of env] t by (simp add: startAutomation_v1_codes)
  from startAutomation_v1_failed[OF t j] c show ?thesis
    by (simp add: errorMsg_v1_def newError_def)
qed

theorem no_available_code_fails_the_job_witness:
  "getAvailableOlxCodes 1
     (storage (serviceOn (storageWith (sourceCredentials @ targetCredentials) noFreeCodes))) = []
   \<and> jobStatus 1 (startAutomation_v1 (exampleEnv1 (probeOk ''UNIVEN'')) 1
        (serviceOn (storageWith (sourceCredentials @ targetCredentials) noFreeCodes)))
       = Some ''failed''
   \<and> jobError 1 (startAutomation_v1 (exampleEnv1 (probeOk ''UNIVEN'')) 1
        (serviceOn (storageWith (sourceCredentials @ targetCredentials) noFreeCodes)))
       = Some (''Nenhum c'' @ [CHR 0xF3] @ ''digo OLX dispon'' @ [CHR 0xED] @ ''vel'')
   \<and> olxCodes (storage (startAutomation_v1 (exampleEnv1 (probeOk ''UNIVEN'')) 1
        (serviceOn (storageWith (sourceCredentials @ targetCredentials) noFreeCodes))))
       = noFreeCodes"
proof -
  let ?sv = "serviceOn (storageWith (sourceCredentials @ targetCredentials) noFreeCodes)"
  let ?env = "exampleEnv1 (probeOk ''UNIVEN'')"
  have 1: "getAutomation 1 (storage ?sv) = Some exampleJob"
    and 2: "e1_importError ?env = None"
    and 3: "\<not> falsy (settingValue ''univenUsername'' (getSettings (storage ?sv)))"
    and 4: "\<not> falsy (settingValue ''univenPassword'' (getSettings (storage ?sv)))"
    and 5: "success (po_result (e1_univenProbe ?env
              (the (settingValue ''univenUsername'' (getSettings (storage ?sv))))
              (the (settingValue ''univenPassword'' (getSettings (storage ?sv))))))"
    and 6: "\<not> falsy (settingValue ''olxEmail'' (getSettings (storage ?sv)))"
    and 7: "\<not> falsy (settingValue ''olxPassword'' (getSettings (storage ?sv)))"
    and 8: "getAvailableOlxCodes (a_brokerId exampleJob) (storage ?sv) = []"
    by (simp_all add: read_defs example_defs)
  from no_available_code_fails_the_job[OF 1 2 3 4 5 6 7 8] 8
  show ?thesis by (simp add: example_defs)
qed




text \<open>
  C9. What \<open>getBrowser\<close> returns does not depend on the storage, hence not on the
  \<open>headless\<close> and \<open>browserType\<close> settings: for any two storages the result is the same, and
  a launch uses \<open>headless: true\<close> with the fixed flags of each service.
\<close>

theorem getBrowser_ignores_settings:
  "fst (getBrowser_v1 launchError (sv\<lparr>storage := st1\<rparr>)) = fst (getBrowser_v1 launchError (sv\<lparr>storage := st2\<rparr>))
   \<and> fst (getBrowser_v2 launchError (sv\<lparr>storage := st1\<rparr>)) = fst (getBrowser_v2 launchError (sv\<lparr>storage := st2\<rparr>))
   \<and> fst (getBrowser_v1 None (sv\<lparr>browser := None\<rparr>))
       = Inr \<lparr>isConnected = True,
              launchedWith =
                \<lparr>headless = True,
                 args = [''--no-sandbox'', ''--disable-setuid-sandbox'',
                         ''--disable-dev-shm-usage'', ''--disable-accelerated-2d-canvas'',
                         ''--no-first-run'', ''--no-zygote'', ''--single-process'',
                         ''--disable-gpu'']\<rparr>\<rparr>
   \<and> fst (getBrowser_v2 None (sv\<lparr>browser := None\<rparr>))
       = Inr \<lparr>isConnected = True,
              launchedWith =
                \<lparr>headless = True,
                 args = [''--no-sandbox'', ''--disable-setuid-sandbox'',
                         ''--disable-dev-shm-usage'', ''--disable-accelerated-2d-canvas'',
                         ''--no-first-run'', ''--no-zygote'', ''--single-process'',
                         ''--disable-gpu'', ''--disable-web-security'',
                         ''--disable-features=VizDisplayCompositor'', ''--disable-extensions'',
                         ''--disable-default-apps'', ''--disable-sync'',
                         ''--metrics-recording-only'', ''--no-default-browser-check'',
                         ''--no-experiments'', ''--hide-scrollbars'', ''--mute-audio'',
                         ''--disable-background-timer-throttling'',
                         ''--disable-renderer-backgrounding'',
                         ''--disable-backgrounding-occluded-windows'']\<rparr>\<rparr>"
  by (simp add: getBrowser_v1_def getBrowser_v2_def puppeteer_launch_def Let_def
      split: option.splits)

subsection \<open>The verdict of the browser-driven probes\<close>

lemma countTrue_pos: "countTrue bs > 0 \<longleftrightarrow> True \<in> set bs"
  by (induction bs) (auto simp: countTrue_def)

text \<open>In both probes one of the two indicator lists always has a match: the URL either is
  one of the two login URLs (an error indicator) or is not (a success indicator). The
  inconclusive branch is therefore never taken on a page the probes read.\<close>

lemma univen_probe_never_silent:
  "countTrue (univenSuccessIndicators currentUrl pageContent pageTitle) > 0
   \<or> countTrue (univenErrorIndicators currentUrl pageContent) > 0"
  unfolding countTrue_pos by (auto simp: univenSuccessIndicators_def univenErrorIndicators_def)

lemma olx_probe_never_silent:
  "countTrue (olxSuccessIndicators currentUrl pageContent pageTitle) > 0
   \<or> countTrue (olxErrorIndicators currentUrl pageContent) > 0"
  unfolding countTrue_pos by (auto simp: olxSuccessIndicators_def olxErrorIndicators_def)




end
